theory Spec2Isabelle
  imports Main "HOL-Library.Multiset"
begin

section \<open>Promise utilities (core/utilities/promises.ts)\<close>

text \<open>
  A JavaScript promise is modelled by its settlement state. Execution is single threaded:
  every synchronous block of the source is one atomic step of the model, and everything
  that happens later (a timer firing, an awaited operation finishing) is an explicit event.
\<close>

datatype 'a promise = Pending | Fulfilled 'a | Failed string

text \<open>
  \<^verbatim>\<open>PromiseCompletionSource<T>\<close>: the promise together with the three private
  flags \<^verbatim>\<open>_isFinished\<close>, \<^verbatim>\<open>_isResolved\<close>, \<^verbatim>\<open>_isRejected\<close>.
\<close>

record 'a PromiseCompletionSource =
  cs_promise :: "'a promise"
  cs_isFinished :: bool
  cs_isResolved :: bool
  cs_isRejected :: bool

definition new_PromiseCompletionSource :: "'a PromiseCompletionSource" where
  "new_PromiseCompletionSource =
     \<lparr>cs_promise = Pending, cs_isFinished = False, cs_isResolved = False, cs_isRejected = False\<rparr>"

definition setResult :: "'a \<Rightarrow> 'a PromiseCompletionSource \<Rightarrow> 'a PromiseCompletionSource" where
  "setResult v s =
     (if \<not> cs_isFinished s
      then s\<lparr>cs_isFinished := True, cs_isResolved := True, cs_promise := Fulfilled v\<rparr>
      else s)"

definition setError :: "string \<Rightarrow> 'a PromiseCompletionSource \<Rightarrow> 'a PromiseCompletionSource" where
  "setError e s =
     (if \<not> cs_isFinished s
      then s\<lparr>cs_isFinished := True, cs_isRejected := True, cs_promise := Failed e\<rparr>
      else s)"

text \<open>
  \<^verbatim>\<open>PromiseTimeoutSource\<close>. The fields are the source's: \<^verbatim>\<open>_source\<close>,
  \<^verbatim>\<open>_timeout\<close> (here: whether the timer is still armed), \<^verbatim>\<open>_isFinished\<close> and
  \<^verbatim>\<open>_isCancelled\<close>. \<open>ts_closure_running\<close> records that \<^verbatim>\<open>_execute\<close> has called the
  closure and is suspended at its \<^verbatim>\<open>await\<close>.
\<close>

record PromiseTimeoutSource =
  ts_milliseconds :: nat
  ts_source :: "bool PromiseCompletionSource"
  ts_timer_armed :: bool
  ts_closure_running :: bool
  ts_isFinished :: bool
  ts_isCancelled :: bool

definition new_PromiseTimeoutSource :: "nat \<Rightarrow> PromiseTimeoutSource" where
  "new_PromiseTimeoutSource ms =
     \<lparr>ts_milliseconds = ms, ts_source = new_PromiseCompletionSource, ts_timer_armed = True,
      ts_closure_running = False, ts_isFinished = False, ts_isCancelled = False\<rparr>"

text \<open>The timer expires: \<^verbatim>\<open>_execute\<close> starts and calls the closure.\<close>

definition ts_expire :: "PromiseTimeoutSource \<Rightarrow> PromiseTimeoutSource" where
  "ts_expire t =
     (if ts_timer_armed t then t\<lparr>ts_timer_armed := False, ts_closure_running := True\<rparr> else t)"

text \<open>
  The awaited closure settles: \<^verbatim>\<open>_execute\<close> resumes, with \<^verbatim>\<open>setResult(true)\<close> after
  a normal return (\<open>None\<close>) and \<^verbatim>\<open>setError(err)\<close> in the catch block (\<open>Some err\<close>).
\<close>

definition ts_closure_settled :: "string option \<Rightarrow> PromiseTimeoutSource \<Rightarrow> PromiseTimeoutSource" where
  "ts_closure_settled r t =
     (if ts_closure_running t
      then (case r of
              None \<Rightarrow> t\<lparr>ts_closure_running := False, ts_source := setResult True (ts_source t)\<rparr>
            | Some err \<Rightarrow> t\<lparr>ts_closure_running := False, ts_source := setError err (ts_source t)\<rparr>)
      else t)"

definition cancel :: "PromiseTimeoutSource \<Rightarrow> PromiseTimeoutSource" where
  "cancel t =
     (if \<not> cs_isFinished (ts_source t)
      then t\<lparr>ts_isCancelled := True, ts_source := setResult False (ts_source t),
             ts_timer_armed := False\<rparr>
      else t)"

definition isFinished :: "PromiseTimeoutSource \<Rightarrow> bool" where
  "isFinished t = ts_isFinished t"

definition isPending :: "PromiseTimeoutSource \<Rightarrow> bool" where
  "isPending t = (\<not> ts_isFinished t)"

definition isCancelled :: "PromiseTimeoutSource \<Rightarrow> bool" where
  "isCancelled t = ts_isCancelled t"

text \<open>Everything that can happen to a timeout source during its lifetime.\<close>

datatype ts_event = Expire | ClosureSettled "string option" | Cancel

fun ts_step :: "PromiseTimeoutSource \<Rightarrow> ts_event \<Rightarrow> PromiseTimeoutSource" where
  "ts_step t Expire = ts_expire t"
| "ts_step t (ClosureSettled r) = ts_closure_settled r t"
| "ts_step t Cancel = cancel t"

definition ts_run :: "nat \<Rightarrow> ts_event list \<Rightarrow> PromiseTimeoutSource" where
  "ts_run ms evs = foldl ts_step (new_PromiseTimeoutSource ms) evs"

section \<open>The store (class Store, core/bot/data/store.ts)\<close>

text \<open>
  A store owns two files: the primary file \<^verbatim>\<open><name>.json\<close> and its sidecar
  \<^verbatim>\<open><name>.json-journal\<close>. A file that does not exist is \<open>None\<close>; contents are
  strings (the source converts what it reads with \<^verbatim>\<open>toString()\<close>). Directories are
  not modelled (\<^verbatim>\<open>_ensureDirectory\<close> only creates missing ones).
\<close>

datatype store_file = Primary | Journal

record disk =
  primary :: "string option"
  journal :: "string option"

fun get_file :: "store_file \<Rightarrow> disk \<Rightarrow> string option" where
  "get_file Primary d = primary d"
| "get_file Journal d = journal d"

fun set_file :: "store_file \<Rightarrow> string option \<Rightarrow> disk \<Rightarrow> disk" where
  "set_file Primary c d = d\<lparr>primary := c\<rparr>"
| "set_file Journal c d = d\<lparr>journal := c\<rparr>"

text \<open>
  The mutating file operations the store issues. \<open>Open f\<close> is
  \<^verbatim>\<open>fs.promises.open(f, 'w')\<close>, which creates the file or truncates it; a handle's
  single \<^verbatim>\<open>write(s)\<close> puts \<open>s\<close> at offset 0; \<open>WriteFile\<close> is
  \<^verbatim>\<open>writeFileSync\<close>/\<^verbatim>\<open>writeFile\<close>, which replaces the content.
\<close>

datatype fs_op =
    Open store_file
  | HandleWrite store_file string
  | HandleClose store_file
  | WriteFile store_file string
  | Unlink store_file

fun apply_op :: "fs_op \<Rightarrow> disk \<Rightarrow> disk" where
  "apply_op (Open f) d = set_file f (Some []) d"
| "apply_op (HandleWrite f s) d =
     (case get_file f d of
        None \<Rightarrow> d
      | Some c \<Rightarrow> set_file f (Some (s @ drop (length s) c)) d)"
| "apply_op (HandleClose f) d = d"
| "apply_op (WriteFile f s) d = set_file f (Some s) d"
| "apply_op (Unlink f) d = set_file f None d"

text \<open>What the store's logger receives.\<close>

datatype store_log =
    LogRecovering
  | LogRecovered
  | LogJournalCorrupt
  | LogCorruptStore
  | LogSaveFailed

text \<open>
  One step of a suspended \<^verbatim>\<open>_write\<close>: the awaited file operation, or the
  \<^verbatim>\<open>TypeError\<close> that \<^verbatim>\<open>data.substring\<close> raises when \<^verbatim>\<open>JSON.stringify\<close> returned
  \<^verbatim>\<open>undefined\<close>.
\<close>

datatype wstep = Do fs_op | TypeError

text \<open>
  The \<^verbatim>\<open>Store<T>\<close> object, with the files it owns. \<open>None\<close> in \<open>defaults\<close> and
  \<open>cache\<close> is \<^verbatim>\<open>undefined\<close>. The two promise sources are identified by a number;
  \<open>resolved\<close> holds the sources \<^verbatim>\<open>setResult()\<close> was called on. \<open>active\<close> holds the
  executions of \<^verbatim>\<open>_write\<close> that are suspended at an \<^verbatim>\<open>await\<close>: each with its local
  \<^verbatim>\<open>data\<close> and the steps it still has to take. \<open>fs_trace\<close> lists the file operations
  performed so far, oldest first.
\<close>

record 'v Store =
  defaults :: "'v option"
  cache :: "'v option"
  writePromiseSource :: "nat option"
  pendingWritePromiseSource :: "nat option"
  resolved :: "nat set"
  next_source :: nat
  active :: "(string option \<times> wstep list) list"
  files :: disk
  fs_trace :: "fs_op list"
  logged :: "store_log list"

text \<open>
  \<^verbatim>\<open>JSON.stringify(v, null, '\t')\<close> and \<^verbatim>\<open>JSON.parse\<close> belong to the JavaScript
  runtime: they are parameters \<open>stringify\<close> (total on the values of \<^verbatim>\<open>T\<close>) and
  \<open>parse\<close> (\<open>None\<close> when \<^verbatim>\<open>JSON.parse\<close> throws).
\<close>

definition perform :: "fs_op \<Rightarrow> 'v Store \<Rightarrow> 'v Store" where
  "perform op s = s\<lparr>files := apply_op op (files s), fs_trace := fs_trace s @ [op]\<rparr>"

definition perform_all :: "fs_op list \<Rightarrow> 'v Store \<Rightarrow> 'v Store" where
  "perform_all ops s = foldl (\<lambda>t op. perform op t) s ops"

definition log_store :: "store_log \<Rightarrow> 'v Store \<Rightarrow> 'v Store" where
  "log_store l s = s\<lparr>logged := logged s @ [l]\<rparr>"

text \<open>\<^verbatim>\<open>_restoreFromJournal\<close>.\<close>

definition restoreFromJournal :: "(string \<Rightarrow> 'v option) \<Rightarrow> 'v Store \<Rightarrow> 'v Store" where
  "restoreFromJournal parse s =
     (case journal (files s) of
        None \<Rightarrow> s
      | Some content \<Rightarrow>
          let s1 = log_store LogRecovering s;
              s2 = (case parse content of
                      Some _ \<Rightarrow> log_store LogRecovered (perform (WriteFile Primary content) s1)
                    | None \<Rightarrow> log_store LogJournalCorrupt s1)
          in perform (Unlink Journal) s2)"

text \<open>The three file operations of the constructor's default creation.\<close>

definition create_default_ops :: "string \<Rightarrow> fs_op list" where
  "create_default_ops data = [WriteFile Journal data, WriteFile Primary data, Unlink Journal]"

definition create_default :: "('v \<Rightarrow> string) \<Rightarrow> 'v Store \<Rightarrow> 'v Store" where
  "create_default stringify s =
     (if primary (files s) = None
      then (case defaults s of
              Some d \<Rightarrow> perform_all (create_default_ops (stringify d)) s
            | None \<Rightarrow> s)
      else s)"

definition load_value :: "(string \<Rightarrow> 'v option) \<Rightarrow> 'v Store \<Rightarrow> 'v Store" where
  "load_value parse s =
     (case primary (files s) of
        Some content \<Rightarrow>
          (case parse content of
             Some data \<Rightarrow> s\<lparr>cache := Some data\<rparr>
           | None \<Rightarrow> log_store LogCorruptStore s)
      | None \<Rightarrow> s)"

text \<open>
  The constructor. \<open>preloaded\<close> and \<open>preloadedCache\<close> are its optional last two
  arguments; \<open>dk\<close> is the state of the two files when it runs.
\<close>

definition fresh_Store :: "disk \<Rightarrow> 'v option \<Rightarrow> 'v option \<Rightarrow> 'v Store" where
  "fresh_Store dk dflt c =
     \<lparr>defaults = dflt, cache = c, writePromiseSource = None, pendingWritePromiseSource = None,
      resolved = {}, next_source = 0, active = [], files = dk, fs_trace = [], logged = []\<rparr>"

definition new_Store ::
  "('v \<Rightarrow> string) \<Rightarrow> (string \<Rightarrow> 'v option) \<Rightarrow> disk \<Rightarrow> 'v option \<Rightarrow> bool \<Rightarrow> 'v option \<Rightarrow> 'v Store" where
  "new_Store stringify parse dk dflt preloaded preloadedCache =
     (let s0 = fresh_Store dk dflt (if preloaded then preloadedCache else dflt)
      in if \<not> preloaded
         then load_value parse (create_default stringify (restoreFromJournal parse s0))
         else s0)"

text \<open>
  \<^verbatim>\<open>_write\<close>, in three parts. Its synchronous head serialises the cache and suspends at
  the first \<^verbatim>\<open>await\<close>; \<open>write_steps\<close> are the awaited steps in the order of the source.
\<close>

definition write_steps :: "string option \<Rightarrow> wstep list" where
  "write_steps data =
     (case data of
        Some d \<Rightarrow>
          [Do (Open Journal), Do (Open Primary),
           Do (HandleWrite Journal (butlast d)), Do (HandleClose Journal),
           Do (HandleWrite Primary d), Do (HandleClose Primary),
           Do (Unlink Journal)]
      | None \<Rightarrow> [Do (Open Journal), Do (Open Primary), TypeError])"

definition start_write :: "('v \<Rightarrow> string) \<Rightarrow> 'v Store \<Rightarrow> 'v Store" where
  "start_write stringify s =
     (let data = map_option stringify (cache s)
      in s\<lparr>active := active s @ [(data, write_steps data)]\<rparr>)"

text \<open>
  The tail of \<^verbatim>\<open>_write\<close>, after the try block or its catch: resolve and clear the
  active source, then start the scheduled write if there is one.
\<close>

definition finish_write :: "('v \<Rightarrow> string) \<Rightarrow> 'v Store \<Rightarrow> 'v Store" where
  "finish_write stringify s =
     (let s1 = s\<lparr>resolved := (case writePromiseSource s of
                                  Some p \<Rightarrow> insert p (resolved s)
                                | None \<Rightarrow> resolved s),
                  writePromiseSource := None\<rparr>
      in case pendingWritePromiseSource s1 of
           Some p \<Rightarrow>
             start_write stringify (s1\<lparr>writePromiseSource := Some p, pendingWritePromiseSource := None\<rparr>)
         | None \<Rightarrow> s1)"

definition drop_nth :: "nat \<Rightarrow> 'a list \<Rightarrow> 'a list" where
  "drop_nth i xs = take i xs @ drop (Suc i) xs"

text \<open>
  The awaited step of the \<open>i\<close>-th suspended \<^verbatim>\<open>_write\<close> completes. With \<open>ok\<close> the
  operation succeeded and the execution moves to its next \<^verbatim>\<open>await\<close>, or into the tail
  after the last one. Otherwise it threw: the catch block logs and the tail runs.
\<close>

definition io_step :: "('v \<Rightarrow> string) \<Rightarrow> nat \<Rightarrow> bool \<Rightarrow> 'v Store \<Rightarrow> 'v Store" where
  "io_step stringify i ok s =
     (if i < length (active s)
      then (case active s ! i of
              (data, []) \<Rightarrow> finish_write stringify (s\<lparr>active := drop_nth i (active s)\<rparr>)
            | (data, Do op # rest) \<Rightarrow>
                if ok
                then (if rest = []
                      then finish_write stringify (perform op (s\<lparr>active := drop_nth i (active s)\<rparr>))
                      else perform op (s\<lparr>active := (active s)[i := (data, rest)]\<rparr>))
                else finish_write stringify
                       (log_store LogSaveFailed (s\<lparr>active := drop_nth i (active s)\<rparr>))
            | (data, TypeError # rest) \<Rightarrow>
                finish_write stringify
                  (log_store LogSaveFailed (s\<lparr>active := drop_nth i (active s)\<rparr>)))
      else s)"

text \<open>\<^verbatim>\<open>save()\<close> (and \<^verbatim>\<open>write(value)\<close>, here \<open>store_write\<close>) returns the promise of a source, here the source's number.\<close>

definition save :: "('v \<Rightarrow> string) \<Rightarrow> 'v Store \<Rightarrow> nat \<times> 'v Store" where
  "save stringify s =
     (case writePromiseSource s of
        None \<Rightarrow>
          (let p = next_source s
           in (p, start_write stringify (s\<lparr>writePromiseSource := Some p, next_source := Suc p\<rparr>)))
      | Some _ \<Rightarrow>
          (case pendingWritePromiseSource s of
             None \<Rightarrow>
               (let p = next_source s
                in (p, s\<lparr>pendingWritePromiseSource := Some p, next_source := Suc p\<rparr>))
           | Some p \<Rightarrow> (p, s)))"

definition set_value :: "'v \<Rightarrow> 'v Store \<Rightarrow> 'v Store" where
  "set_value v s = s\<lparr>cache := Some v\<rparr>"

definition store_write :: "('v \<Rightarrow> string) \<Rightarrow> 'v \<Rightarrow> 'v Store \<Rightarrow> nat \<times> 'v Store" where
  "store_write stringify v s = save stringify (set_value v s)"

text \<open>
  A store of booleans, to run the model on: \<^verbatim>\<open>JSON.stringify\<close> of a boolean, and
  \<^verbatim>\<open>JSON.parse\<close> on the texts whose value is a boolean (a literal between optional JSON
  white space). The other texts used below (the empty text and the truncated literals)
  are no JSON text at all.
\<close>

definition stringify_bool :: "bool \<Rightarrow> string" where
  "stringify_bool b = (if b then ''true'' else ''false'')"

definition json_space :: "char \<Rightarrow> bool" where
  "json_space c = (c = CHR '' '' \<or> c = CHR 0x09 \<or> c = CHR 0x0A \<or> c = CHR 0x0D)"

definition parse_bool :: "string \<Rightarrow> bool option" where
  "parse_bool s =
     (let t = rev (dropWhile json_space (rev (dropWhile json_space s)))
      in if t = ''true'' then Some True else if t = ''false'' then Some False else None)"

text \<open>
  Everything that can happen to a store after its construction: a call of
  \<^verbatim>\<open>write(v)\<close>, of \<^verbatim>\<open>save()\<close> or of the \<^verbatim>\<open>value\<close> setter, and the completion of
  the step a suspended \<^verbatim>\<open>_write\<close> awaits.
\<close>

datatype 'v store_event = CallWrite 'v | CallSave | SetValue 'v | IoDone nat bool

fun store_step :: "('v \<Rightarrow> string) \<Rightarrow> 'v Store \<Rightarrow> 'v store_event \<Rightarrow> 'v Store" where
  "store_step stringify s (CallWrite v) = snd (store_write stringify v s)"
| "store_step stringify s CallSave = snd (save stringify s)"
| "store_step stringify s (SetValue v) = set_value v s"
| "store_step stringify s (IoDone i ok) = io_step stringify i ok s"

definition store_run :: "('v \<Rightarrow> string) \<Rightarrow> 'v Store \<Rightarrow> 'v store_event list \<Rightarrow> 'v Store" where
  "store_run stringify s evs = foldl (store_step stringify) s evs"




text \<open>
  Let the file operations of the suspended writes succeed one after the other, for at
  most \<open>n\<close> steps, until no write is left.
\<close>

fun drain :: "('v \<Rightarrow> string) \<Rightarrow> nat \<Rightarrow> 'v Store \<Rightarrow> 'v Store" where
  "drain stringify 0 s = s"
| "drain stringify (Suc n) s =
     (if active s = [] then s else drain stringify n (io_step stringify 0 True s))"

text \<open>The contents a list of file operations writes to a file, in order.\<close>

fun written_to :: "store_file \<Rightarrow> fs_op list \<Rightarrow> string list" where
  "written_to f [] = []"
| "written_to f (HandleWrite g s # ops) = (if f = g then s # written_to f ops else written_to f ops)"
| "written_to f (WriteFile g s # ops) = (if f = g then s # written_to f ops else written_to f ops)"
| "written_to f (_ # ops) = written_to f ops"

text \<open>The file operations of one \<^verbatim>\<open>_write\<close> of the data \<open>d\<close>, as a list.\<close>

definition save_ops :: "string \<Rightarrow> fs_op list" where
  "save_ops d = [Open Journal, Open Primary, HandleWrite Journal (butlast d), HandleClose Journal,
           HandleWrite Primary d, HandleClose Primary, Unlink Journal]"


section \<open>The event manager (core/bot/managers/eventManager.ts)\<close>

text \<open>
  What a caller can pass where the signature asks for the event name, with the result of
  \<^verbatim>\<open>typeof\<close> on it.
\<close>

datatype js_value = JString string | JNumber int | JBoolean bool | JUndefined | JNull | JObject

fun typeof :: "js_value \<Rightarrow> string" where
  "typeof (JString s) = ''string''"
| "typeof (JNumber n) = ''number''"
| "typeof (JBoolean b) = ''boolean''"
| "typeof JUndefined = ''undefined''"
| "typeof JNull = ''object''"
| "typeof JObject = ''object''"

datatype Status = Offline | Starting | Online | Stopping

text \<open>
  Handlers are opaque closures, identified by a number. What a call of a handler does is
  given by an oracle: it throws before returning, or it returns something whose promise
  is later fulfilled, later rejected, or never settled. A promise of the model stands for
  its eventual state, so \<open>Pending\<close> below reads: never settled.
\<close>

datatype outcome = ThrowsSync string | Fulfils | RejectsWith string | NeverSettles

record QueuedEvent =
  q_name :: string
  q_arguments :: "js_value list"
  q_source :: "unit PromiseCompletionSource"

datatype event_log = UncaughtError string string

text \<open>
  The manager: the bot's status it reads, \<^verbatim>\<open>_handlers\<close> (a map to insertion-ordered
  sets), \<^verbatim>\<open>_queue\<close> (a set of fresh objects, so a list in insertion order), and the
  handler calls made so far (handler and arguments). The logger is written to at two
  moments. \<open>em_logged\<close> lists, in order, what the catch block of the loop logs while
  \<^verbatim>\<open>invoke\<close> runs. \<open>em_rejections\<close> collects what the \<^verbatim>\<open>then\<close> callbacks log: each
  entry is logged when the promise of its handler is rejected, after the loop has ended
  and in the order in which the promises happen to settle, so the collection has no order.
\<close>

record EventManager =
  em_status :: Status
  em_handlers :: "string \<rightharpoonup> nat list"
  em_queue :: "QueuedEvent list"
  em_logged :: "event_log list"
  em_rejections :: "event_log multiset"
  em_calls :: "(nat \<times> js_value list) list"

definition new_EventManager :: "Status \<Rightarrow> EventManager" where
  "new_EventManager st =
     \<lparr>em_status = st, em_handlers = Map.empty, em_queue = [], em_logged = [],
      em_rejections = {#}, em_calls = []\<rparr>"

definition register :: "string \<Rightarrow> nat \<Rightarrow> EventManager \<Rightarrow> EventManager" where
  "register event closure s =
     (let hs = (case em_handlers s event of None \<Rightarrow> [] | Some hs \<Rightarrow> hs)
      in s\<lparr>em_handlers := (em_handlers s)(event \<mapsto> (if closure \<in> set hs then hs else hs @ [closure]))\<rparr>)"

definition deregister :: "string \<Rightarrow> nat \<Rightarrow> EventManager \<Rightarrow> EventManager" where
  "deregister event closure s =
     (case em_handlers s event of
        None \<Rightarrow> s
      | Some hs \<Rightarrow> s\<lparr>em_handlers := (em_handlers s)(event \<mapsto> removeAll closure hs)\<rparr>)"

definition clear :: "string option \<Rightarrow> EventManager \<Rightarrow> EventManager" where
  "clear event s =
     (case event of
        Some e \<Rightarrow> s\<lparr>em_handlers := (em_handlers s)(e := None)\<rparr>
      | None \<Rightarrow> s\<lparr>em_handlers := Map.empty\<rparr>)"

text \<open>
  The loop of \<^verbatim>\<open>invoke\<close> over the handlers of the event. A handler that throws is logged
  in the catch block, at once, and contributes no promise; otherwise a wrapper promise is
  pushed for it, which is fulfilled when the handler's promise is fulfilled, and also when
  it is rejected, after the \<^verbatim>\<open>then\<close> callback has logged the rejection. The function
  returns the wrapper promises in order.
\<close>

fun call_handlers ::
  "(nat \<Rightarrow> js_value list \<Rightarrow> outcome) \<Rightarrow> string \<Rightarrow> js_value list \<Rightarrow> nat list \<Rightarrow> EventManager
     \<Rightarrow> unit promise list \<times> EventManager" where
  "call_handlers beh event args [] s = ([], s)"
| "call_handlers beh event args (h # hs) s =
     (let s1 = s\<lparr>em_calls := em_calls s @ [(h, args)]\<rparr>
      in case beh h args of
           ThrowsSync err \<Rightarrow>
             call_handlers beh event args hs (s1\<lparr>em_logged := em_logged s1 @ [UncaughtError event err]\<rparr>)
         | Fulfils \<Rightarrow>
             (let (ps, s2) = call_handlers beh event args hs s1 in (Fulfilled () # ps, s2))
         | RejectsWith err \<Rightarrow>
             (let (ps, s2) = call_handlers beh event args hs
                               (s1\<lparr>em_rejections := add_mset (UncaughtError event err) (em_rejections s1)\<rparr>)
              in (Fulfilled () # ps, s2))
         | NeverSettles \<Rightarrow>
             (let (ps, s2) = call_handlers beh event args hs s1 in (Pending # ps, s2)))"

text \<open>\<^verbatim>\<open>Promise.all\<close>: rejected with the first rejection, else fulfilled once all are.\<close>

fun promise_all :: "unit promise list \<Rightarrow> unit promise" where
  "promise_all [] = Fulfilled ()"
| "promise_all (Failed e # ps) = Failed e"
| "promise_all (Fulfilled u # ps) = promise_all ps"
| "promise_all (Pending # ps) = (case promise_all ps of Failed e \<Rightarrow> Failed e | _ \<Rightarrow> Pending)"

text \<open>The handlers registered for an event, none when the map has no entry.\<close>

definition handlers_of :: "EventManager \<Rightarrow> string \<Rightarrow> nat list" where
  "handlers_of s name = (case em_handlers s name of Some hs \<Rightarrow> hs | None \<Rightarrow> [])"



text \<open>
  What a call of \<^verbatim>\<open>invoke\<close> gives its caller: an exception thrown by the call itself,
  or a promise. The promise is either known by its eventual state, or it is the promise
  of the source of a queued event, whose state is kept in the queue.
\<close>

datatype future = Direct "unit promise" | OfQueued nat

datatype invoke_result = Thrown string | Returned future

definition invoke ::
  "(nat \<Rightarrow> js_value list \<Rightarrow> outcome) \<Rightarrow> js_value \<Rightarrow> js_value list \<Rightarrow> EventManager
     \<Rightarrow> invoke_result \<times> EventManager" where
  "invoke beh event args s =
     (case event of
        JString name \<Rightarrow>
          if em_status s \<noteq> Online \<and> em_status s \<noteq> Stopping
          then (Returned (OfQueued (length (em_queue s))),
                s\<lparr>em_queue := em_queue s @
                     [\<lparr>q_name = name, q_arguments = args, q_source = new_PromiseCompletionSource\<rparr>]\<rparr>)
          else (let (promises, s1) = call_handlers beh name args (handlers_of s name) s
                in (Returned (Direct (promise_all promises)), s1))
      | _ \<Rightarrow>
          (Returned (Direct (Failed (''Invalid event type (expected string, got '' @ typeof event @ '')''))),
           s))"

definition future_state :: "EventManager \<Rightarrow> future \<Rightarrow> unit promise" where
  "future_state s f =
     (case f of
        Direct p \<Rightarrow> p
      | OfQueued i \<Rightarrow> cs_promise (q_source (em_queue s ! i)))"

text \<open>
  \<^verbatim>\<open>flush\<close>: the loop body for the \<open>i\<close>-th queued event, and the loop. The callback
  given to \<^verbatim>\<open>then\<close> runs when the promise of \<^verbatim>\<open>invoke\<close> is fulfilled.
\<close>

definition flush_one ::
  "(nat \<Rightarrow> js_value list \<Rightarrow> outcome) \<Rightarrow> EventManager \<Rightarrow> nat \<Rightarrow> EventManager" where
  "flush_one beh s i =
     (let event = em_queue s ! i;
          (r, s1) = invoke beh (JString (q_name event)) (q_arguments event) s
      in case r of
           Returned f \<Rightarrow>
             (if future_state s1 f = Fulfilled ()
              then s1\<lparr>em_queue := (em_queue s1)[i := (em_queue s1 ! i)\<lparr>q_source := setResult () (q_source (em_queue s1 ! i))\<rparr>]\<rparr>
              else s1)
         | Thrown e \<Rightarrow> s1)"

definition flush :: "(nat \<Rightarrow> js_value list \<Rightarrow> outcome) \<Rightarrow> EventManager \<Rightarrow> EventManager" where
  "flush beh s =
     (if em_status s = Online \<or> em_status s = Stopping
      then foldl (flush_one beh) s [0..<length (em_queue s)]
      else s)"

section \<open>The task manager (core/bot/managers/taskManager.ts)\<close>

text \<open>
  \<^verbatim>\<open>TaskData\<close> and \<^verbatim>\<open>TaskOptions\<close> with the fields of the source; an optional field
  that is absent is \<open>None\<close>. Times are milliseconds since the epoch.
\<close>

record TaskData =
  serviceId :: string
  taskName :: string
  taskSchedule :: string
  timeNextRun :: int
  timeLastRun :: int
  totalRuns :: int
  numFailures :: "int option"
  timeNextReattempt :: "int option"

record TaskOptions =
  schedule :: string
  timezone :: "string option"
  immediate :: "bool option"
  immediateWhenLate :: "bool option"
  immediateFirstRun :: "bool option"
  timeout :: "int option"
  numReattempts :: "int option"

text \<open>
  A \<^verbatim>\<open>Task\<close>: its data, name and options, the name of its service (for the log) and
  whether its cron job is started. The callback is opaque; its executions are events.
\<close>

record Task =
  task_data :: TaskData
  task_name :: string
  task_options :: TaskOptions
  task_service :: string
  task_job_started :: bool

text \<open>The \<^verbatim>\<open>Timeout\<close> object of \<^verbatim>\<open>_createTimeout\<close> (its timer firing is an event).\<close>

record Timeout =
  triggered :: bool
  milliseconds :: int

definition createTimeout :: "TaskOptions \<Rightarrow> Timeout option" where
  "createTimeout opts =
     (let ms = (case timeout opts of Some m \<Rightarrow> m | None \<Rightarrow> 120000)
      in if ms \<le> 0 then None else Some \<lparr>triggered = False, milliseconds = ms\<rparr>)"

text \<open>\<^verbatim>\<open>_getNextAttemptTime\<close>, with the value of \<^verbatim>\<open>Date.now()\<close>.\<close>

definition getNextAttemptTime :: "int \<Rightarrow> TaskData \<Rightarrow> int" where
  "getNextAttemptTime now d =
     (let reattempt = (case numFailures d of Some n \<Rightarrow> n | None \<Rightarrow> 0)
      in if reattempt \<le> 3 then now + 15000
         else if reattempt \<le> 7 then now + 30000
         else if reattempt \<le> 15 then now + 45000
         else now + 60000)"

text \<open>The errors a callback fails with, as the catch block tells them apart.\<close>

datatype task_error = TaskError string "string option" | FetchError string | OtherError string

datatype task_log =
    Verbose_skipped string
  | Verbose2_starting string string
  | Warn_retrying string int
  | Warn_timed_out string int
  | Verbose2_finished string string int
  | Info_succeeded_after string int
  | Error_task_failed string string
  | Verbose_failed_due_to string string
  | Error_uncaught string string
  | Warn_failed_after string int
  | Verbose_scheduling string "int option"

text \<open>
  An execution of \<^verbatim>\<open>_invokeTask\<close> that got past the running check, with its locals
  \<^verbatim>\<open>attemptNumber\<close>, \<^verbatim>\<open>startTime\<close> and \<^verbatim>\<open>timeout\<close>: \<open>inv_awaiting\<close> while it is
  suspended at \<^verbatim>\<open>await Promise.race\<close>, \<open>inv_callback_running\<close> while the promise of
  the callback is unsettled. \<open>inv_reattempt\<close> is the reattempt timeout whose closure
  awaits this execution, if one does.
\<close>

record invocation =
  inv_task :: nat
  attemptNumber :: int
  startTime :: int
  inv_timeout :: "Timeout option"
  inv_awaiting :: bool
  inv_callback_running :: bool
  inv_reattempt :: "nat option"

text \<open>A \<^verbatim>\<open>PromiseTimeoutSource\<close> in \<^verbatim>\<open>_reattemptTimeouts\<close>, with the task of its closure.\<close>

record reattempt =
  rt_id :: nat
  rt_task :: nat
  rt_milliseconds :: int
  rt_fired :: bool

text \<open>
  The manager. Task objects are identified by a number (\<open>tm_tasks\<close> gives the object);
  \<open>tm_running\<close> holds the keys of \<^verbatim>\<open>_running\<close>; \<open>tm_now\<close> is the clock read by
  \<^verbatim>\<open>Date.now()\<close>, which stands still during a synchronous block; \<open>tm_saves\<close> counts
  the calls of \<^verbatim>\<open>_store.save()\<close> (the store is modelled above).
\<close>

record TaskManager =
  tm_tasks :: "nat \<Rightarrow> Task"
  tm_running :: "nat set"
  tm_invocations :: "invocation list"
  tm_reattemptTimeouts :: "reattempt list"
  tm_next_timeout :: nat
  tm_now :: int
  tm_saves :: nat
  tm_logged :: "task_log list"

definition new_TaskManager :: "(nat \<Rightarrow> Task) \<Rightarrow> int \<Rightarrow> TaskManager" where
  "new_TaskManager ts t0 =
     \<lparr>tm_tasks = ts, tm_running = {}, tm_invocations = [], tm_reattemptTimeouts = [],
      tm_next_timeout = 0, tm_now = t0, tm_saves = 0, tm_logged = []\<rparr>"

definition log_task :: "task_log \<Rightarrow> TaskManager \<Rightarrow> TaskManager" where
  "log_task l s = s\<lparr>tm_logged := tm_logged s @ [l]\<rparr>"

definition store_save :: "TaskManager \<Rightarrow> TaskManager" where
  "store_save s = s\<lparr>tm_saves := Suc (tm_saves s)\<rparr>"

definition update_data :: "nat \<Rightarrow> (TaskData \<Rightarrow> TaskData) \<Rightarrow> TaskManager \<Rightarrow> TaskManager" where
  "update_data t f s =
     s\<lparr>tm_tasks := (tm_tasks s)(t := (tm_tasks s t)\<lparr>task_data := f (task_data (tm_tasks s t))\<rparr>)\<rparr>"

text \<open>\<^verbatim>\<open>task.job.start()\<close> and \<^verbatim>\<open>task.job.stop()\<close>.\<close>

definition set_job :: "nat \<Rightarrow> bool \<Rightarrow> TaskManager \<Rightarrow> TaskManager" where
  "set_job t b s = s\<lparr>tm_tasks := (tm_tasks s)(t := (tm_tasks s t)\<lparr>task_job_started := b\<rparr>)\<rparr>"

text \<open>
  \<^verbatim>\<open>_scheduleReattempt\<close>. \<open>invokeNow\<close> is its call \<^verbatim>\<open>this._invokeTask(task)\<close>. With
  \<^verbatim>\<open>timeNextReattempt\<close> undefined the arithmetic gives \<^verbatim>\<open>NaN\<close> (here \<open>None\<close>): the
  comparison is false and the timer is armed with the least delay.
\<close>

definition scheduleReattempt ::
  "(nat \<Rightarrow> TaskManager \<Rightarrow> TaskManager) \<Rightarrow> nat \<Rightarrow> TaskManager \<Rightarrow> TaskManager" where
  "scheduleReattempt invokeNow t s =
     (let timeRemaining = (case timeNextReattempt (task_data (tm_tasks s t)) of
                             Some tn \<Rightarrow> Some (max 0 (tn - tm_now s))
                           | None \<Rightarrow> None);
          s1 = log_task (Verbose_scheduling (task_name (tm_tasks s t)) timeRemaining) s
      in if (case timeRemaining of Some r \<Rightarrow> r \<le> 0 | None \<Rightarrow> False)
         then invokeNow t s1
         else s1\<lparr>tm_reattemptTimeouts := tm_reattemptTimeouts s1 @
                   [\<lparr>rt_id = tm_next_timeout s1, rt_task = t,
                     rt_milliseconds = (case timeRemaining of Some r \<Rightarrow> r | None \<Rightarrow> 1),
                     rt_fired = False\<rparr>],
                 tm_next_timeout := Suc (tm_next_timeout s1)\<rparr>)"

text \<open>The \<^verbatim>\<open>finally\<close> block of \<^verbatim>\<open>_invokeTask\<close>.\<close>

definition finally_block :: "nat \<Rightarrow> TaskManager \<Rightarrow> TaskManager" where
  "finally_block t s = store_save (s\<lparr>tm_running := tm_running s - {t}\<rparr>)"

text \<open>
  What follows \<^verbatim>\<open>await this._invokeTask(task)\<close> in the closure of a reattempt timeout:
  the timeout is deleted from \<^verbatim>\<open>_reattemptTimeouts\<close>.
\<close>

definition after_invoke :: "nat option \<Rightarrow> TaskManager \<Rightarrow> TaskManager" where
  "after_invoke origin s =
     (case origin of
        Some k \<Rightarrow> s\<lparr>tm_reattemptTimeouts := filter (\<lambda>r. rt_id r \<noteq> k) (tm_reattemptTimeouts s)\<rparr>
      | None \<Rightarrow> s)"

text \<open>
  The rest of the \<^verbatim>\<open>try\<close> block once the race is won without an error, for the
  invocation \<open>i\<close>. \<open>cron\<close> is the schedule oracle \<^verbatim>\<open>task.job.nextDate().valueOf()\<close>,
  a function of the job's options and the current time.
\<close>

definition succeed :: "(TaskOptions \<Rightarrow> int \<Rightarrow> int) \<Rightarrow> nat \<Rightarrow> TaskManager \<Rightarrow> TaskManager" where
  "succeed cron i s =
     (let inv = tm_invocations s ! i;
          t = inv_task inv;
          task = tm_tasks s t;
          s1 = (case inv_timeout inv of
                  Some tmo \<Rightarrow>
                    if triggered tmo
                    then log_task (Warn_timed_out (task_name task) (milliseconds tmo)) s
                    else s
                | None \<Rightarrow> s);
          s2 = log_task (Verbose2_finished (task_service task) (task_name task)
                           (tm_now s - startTime inv)) s1;
          s3 = update_data t
                 (\<lambda>d. d\<lparr>timeLastRun := startTime inv,
                         timeNextRun := cron (task_options task) (tm_now s),
                         totalRuns := totalRuns d + 1\<rparr>) s2;
          s4 = (if attemptNumber inv > 0
                then log_task (Info_succeeded_after (task_name task) (attemptNumber inv))
                       (set_job t True
                          (update_data t (\<lambda>d. d\<lparr>numFailures := None, timeNextReattempt := None\<rparr>) s3))
                else s3)
      in after_invoke (inv_reattempt inv) (finally_block t s4))"

definition log_error :: "string \<Rightarrow> task_error \<Rightarrow> TaskManager \<Rightarrow> TaskManager" where
  "log_error name err s =
     (case err of
        TaskError msg realError \<Rightarrow>
          (case realError of
             Some re \<Rightarrow> log_task (Verbose_failed_due_to name re) (log_task (Error_task_failed name msg) s)
           | None \<Rightarrow> log_task (Error_task_failed name msg) s)
      | FetchError msg \<Rightarrow> log_task (Error_task_failed name msg) s
      | OtherError e \<Rightarrow> log_task (Error_uncaught name e) s)"

text \<open>The \<^verbatim>\<open>catch\<close> block for the invocation \<open>i\<close>, then the \<^verbatim>\<open>finally\<close> block.\<close>

definition fail ::
  "(TaskOptions \<Rightarrow> int \<Rightarrow> int) \<Rightarrow> (nat \<Rightarrow> TaskManager \<Rightarrow> TaskManager) \<Rightarrow> nat \<Rightarrow> task_error
     \<Rightarrow> TaskManager \<Rightarrow> TaskManager" where
  "fail cron invokeNow i err s =
     (let inv = tm_invocations s ! i;
          t = inv_task inv;
          task = tm_tasks s t;
          s1 = log_error (task_name task) err s;
          nextAttemptNumber = attemptNumber inv + 1;
          maxAttempts = (case numReattempts (task_options task) of Some m \<Rightarrow> m | None \<Rightarrow> 1);
          s2 = s1\<lparr>tm_running := tm_running s1 - {t}\<rparr>;
          s3 = (if nextAttemptNumber \<le> maxAttempts
                then (let a = set_job t False s2;
                          b = update_data t (\<lambda>d. d\<lparr>numFailures := Some nextAttemptNumber\<rparr>) a;
                          c = update_data t
                                (\<lambda>d. d\<lparr>timeNextReattempt := Some (getNextAttemptTime (tm_now s) d)\<rparr>) b
                      in scheduleReattempt invokeNow t (store_save c))
                else (let a = log_task (Warn_failed_after (task_name task) (attemptNumber inv)) s2;
                          b = update_data t
                                (\<lambda>d. d\<lparr>timeNextRun := cron (task_options task) (tm_now s),
                                        numFailures := None, timeNextReattempt := None\<rparr>) a
                      in set_job t True (store_save b)))
      in after_invoke (inv_reattempt inv) (finally_block t s3))"

text \<open>
  What \<^verbatim>\<open>Promise.resolve(task.callback(event))\<close> is when the race is set up: a promise
  still pending, an already fulfilled promise (or a plain value), or an error (the
  callback threw, or its promise is already rejected).
\<close>

datatype callback_start = StillRunning | ReturnedValue | Threw task_error

text \<open>
  \<^verbatim>\<open>_invokeTask(task)\<close> up to its \<^verbatim>\<open>await\<close>, and beyond it when the race is decided at
  once. Without a timeout the second entry of the race is \<^verbatim>\<open>undefined\<close>, which wins
  against a pending callback. \<open>origin\<close> is the reattempt timeout whose closure makes the
  call, if one does. The event descriptor given to the callback is not modelled.
\<close>

definition invokeTask_body ::
  "(TaskOptions \<Rightarrow> int \<Rightarrow> int) \<Rightarrow> (nat \<Rightarrow> TaskManager \<Rightarrow> TaskManager) \<Rightarrow> callback_start
     \<Rightarrow> nat option \<Rightarrow> nat \<Rightarrow> TaskManager \<Rightarrow> TaskManager" where
  "invokeTask_body cron invokeNow cb origin t s =
     (let task = tm_tasks s t
      in if t \<in> tm_running s
         then after_invoke origin (log_task (Verbose_skipped (task_name task)) s)
         else
           (let s1 = s\<lparr>tm_running := insert t (tm_running s)\<rparr>;
                attempt = (case numFailures (task_data task) of Some n \<Rightarrow> n | None \<Rightarrow> 0);
                s2 = log_task (Verbose2_starting (task_service task) (task_name task)) s1;
                s3 = (if attempt > 0 then log_task (Warn_retrying (task_name task) attempt) s2 else s2);
                tmo = createTimeout (task_options task);
                i = length (tm_invocations s);
                s4 = s3\<lparr>tm_invocations := tm_invocations s3 @
                          [\<lparr>inv_task = t, attemptNumber = attempt, startTime = tm_now s,
                            inv_timeout = tmo,
                            inv_awaiting = (cb = StillRunning \<and> tmo \<noteq> None),
                            inv_callback_running = (cb = StillRunning),
                            inv_reattempt = origin\<rparr>]\<rparr>
            in case cb of
                 StillRunning \<Rightarrow> (if tmo = None then succeed cron i s4 else s4)
               | ReturnedValue \<Rightarrow> succeed cron i s4
               | Threw err \<Rightarrow> fail cron invokeNow i err s4))"

text \<open>
  \<^verbatim>\<open>_invokeTask\<close> calls itself through \<^verbatim>\<open>_scheduleReattempt\<close>, so the model takes the
  depth of calls it may nest; \<open>nested\<close> tells how the callback of a nested call starts.
\<close>

primrec invokeTask ::
  "nat \<Rightarrow> (TaskOptions \<Rightarrow> int \<Rightarrow> int) \<Rightarrow> (nat \<Rightarrow> callback_start) \<Rightarrow> callback_start
     \<Rightarrow> nat option \<Rightarrow> nat \<Rightarrow> TaskManager \<Rightarrow> TaskManager" where
  "invokeTask 0 cron nested cb origin t s = s"
| "invokeTask (Suc n) cron nested cb origin t s =
     invokeTask_body cron (invokeTask n cron nested (nested n) None) cb origin t s"

text \<open>The events of the manager: what timers and callbacks do to it.\<close>

definition cron_fires ::
  "nat \<Rightarrow> (TaskOptions \<Rightarrow> int \<Rightarrow> int) \<Rightarrow> (nat \<Rightarrow> callback_start) \<Rightarrow> nat \<Rightarrow> callback_start
     \<Rightarrow> TaskManager \<Rightarrow> TaskManager" where
  "cron_fires fuel cron nested t cb s =
     (if task_job_started (tm_tasks s t) then invokeTask fuel cron nested cb None t s else s)"

definition reattempt_fires ::
  "nat \<Rightarrow> (TaskOptions \<Rightarrow> int \<Rightarrow> int) \<Rightarrow> (nat \<Rightarrow> callback_start) \<Rightarrow> nat \<Rightarrow> callback_start
     \<Rightarrow> TaskManager \<Rightarrow> TaskManager" where
  "reattempt_fires fuel cron nested k cb s =
     (case find (\<lambda>r. rt_id r = k \<and> \<not> rt_fired r) (tm_reattemptTimeouts s) of
        Some r \<Rightarrow>
          invokeTask fuel cron nested cb (Some k) (rt_task r)
            (s\<lparr>tm_reattemptTimeouts :=
                 map (\<lambda>x. if rt_id x = k then x\<lparr>rt_fired := True\<rparr> else x) (tm_reattemptTimeouts s)\<rparr>)
      | None \<Rightarrow> s)"

text \<open>
  The promise of the callback of invocation \<open>i\<close> settles, fulfilled (\<open>None\<close>) or
  rejected. Only an invocation still suspended at the race resumes.
\<close>

definition callback_settles ::
  "nat \<Rightarrow> (TaskOptions \<Rightarrow> int \<Rightarrow> int) \<Rightarrow> (nat \<Rightarrow> callback_start) \<Rightarrow> nat \<Rightarrow> task_error option
     \<Rightarrow> TaskManager \<Rightarrow> TaskManager" where
  "callback_settles fuel cron nested i r s =
     (if i < length (tm_invocations s) \<and> inv_callback_running (tm_invocations s ! i)
      then (let inv = tm_invocations s ! i;
                s1 = s\<lparr>tm_invocations := (tm_invocations s)
                         [i := inv\<lparr>inv_callback_running := False, inv_awaiting := False\<rparr>]\<rparr>
            in if inv_awaiting inv
               then (case r of
                       None \<Rightarrow> succeed cron i s1
                     | Some err \<Rightarrow> fail cron (invokeTask fuel cron nested (nested fuel) None) i err s1)
               else s1)
      else s)"

text \<open>The timer of the timeout of invocation \<open>i\<close> fires.\<close>

definition timeout_fires :: "(TaskOptions \<Rightarrow> int \<Rightarrow> int) \<Rightarrow> nat \<Rightarrow> TaskManager \<Rightarrow> TaskManager" where
  "timeout_fires cron i s =
     (if i < length (tm_invocations s)
      then (case inv_timeout (tm_invocations s ! i) of
              Some tmo \<Rightarrow>
                if triggered tmo then s
                else (let inv = tm_invocations s ! i;
                          s1 = s\<lparr>tm_invocations := (tm_invocations s)
                                   [i := inv\<lparr>inv_timeout := Some (tmo\<lparr>triggered := True\<rparr>),
                                           inv_awaiting := False\<rparr>]\<rparr>
                      in if inv_awaiting inv then succeed cron i s1 else s1)
            | None \<Rightarrow> s)
      else s)"

definition tick :: "nat \<Rightarrow> TaskManager \<Rightarrow> TaskManager" where
  "tick d s = s\<lparr>tm_now := tm_now s + int d\<rparr>"

datatype tm_event =
    CronFires nat callback_start
  | ReattemptFires nat callback_start
  | CallbackSettles nat "task_error option"
  | TimeoutFires nat
  | Tick nat

fun tm_step ::
  "nat \<Rightarrow> (TaskOptions \<Rightarrow> int \<Rightarrow> int) \<Rightarrow> (nat \<Rightarrow> callback_start) \<Rightarrow> TaskManager \<Rightarrow> tm_event
     \<Rightarrow> TaskManager" where
  "tm_step fuel cron nested s (CronFires t cb) = cron_fires fuel cron nested t cb s"
| "tm_step fuel cron nested s (ReattemptFires k cb) = reattempt_fires fuel cron nested k cb s"
| "tm_step fuel cron nested s (CallbackSettles i r) = callback_settles fuel cron nested i r s"
| "tm_step fuel cron nested s (TimeoutFires i) = timeout_fires cron i s"
| "tm_step fuel cron nested s (Tick d) = tick d s"

definition tm_run ::
  "nat \<Rightarrow> (TaskOptions \<Rightarrow> int \<Rightarrow> int) \<Rightarrow> (nat \<Rightarrow> callback_start) \<Rightarrow> TaskManager \<Rightarrow> tm_event list
     \<Rightarrow> TaskManager" where
  "tm_run fuel cron nested s evs = foldl (tm_step fuel cron nested) s evs"

text \<open>
  The invocations of a task suspended at their race, and the executions of its callback
  that have not settled.
\<close>

definition awaiting :: "nat \<Rightarrow> TaskManager \<Rightarrow> invocation list" where
  "awaiting t s = filter (\<lambda>v. inv_task v = t \<and> inv_awaiting v) (tm_invocations s)"

definition executing :: "nat \<Rightarrow> TaskManager \<Rightarrow> invocation list" where
  "executing t s = filter (\<lambda>v. inv_task v = t \<and> inv_callback_running v) (tm_invocations s)"

text \<open>
  One failing run of a task: \<^verbatim>\<open>_invokeTask\<close> is called, the callback returns a pending
  promise, and \<open>w\<close> milliseconds later that promise is rejected with \<open>err\<close>.
\<close>

definition failing_run ::
  "nat \<Rightarrow> (TaskOptions \<Rightarrow> int \<Rightarrow> int) \<Rightarrow> (nat \<Rightarrow> callback_start) \<Rightarrow> nat option \<Rightarrow> nat \<Rightarrow> nat
     \<Rightarrow> task_error \<Rightarrow> TaskManager \<Rightarrow> TaskManager" where
  "failing_run fuel cron nested origin t w err s =
     callback_settles fuel cron nested (length (tm_invocations s)) (Some err)
       (tick w (invokeTask fuel cron nested StillRunning origin t s))"

text \<open>
  A run that times out: the callback returns a pending promise and the timer of the
  timeout fires \<open>w\<close> milliseconds later, before the promise settles.
\<close>

definition timed_out_run ::
  "nat \<Rightarrow> (TaskOptions \<Rightarrow> int \<Rightarrow> int) \<Rightarrow> (nat \<Rightarrow> callback_start) \<Rightarrow> nat option \<Rightarrow> nat \<Rightarrow> nat
     \<Rightarrow> TaskManager \<Rightarrow> TaskManager" where
  "timed_out_run fuel cron nested origin t w s =
     timeout_fires cron (length (tm_invocations s))
       (tick w (invokeTask fuel cron nested StillRunning origin t s))"

text \<open>The delay \<^verbatim>\<open>_getNextAttemptTime\<close> adds for a number of failures.\<close>

definition retry_delay :: "int \<Rightarrow> int" where
  "retry_delay failures =
     (if failures \<le> 3 then 15000 else if failures \<le> 7 then 30000
      else if failures \<le> 15 then 45000 else 60000)"

text \<open>A task to run the model on: every five minutes, default timeout, two reattempts.\<close>

definition example_task :: Task where
  "example_task =
     \<lparr>task_data = \<lparr>serviceId = ''svc'', taskName = ''poll'', taskSchedule = ''0 */5 * * * *'',
                   timeNextRun = 300000, timeLastRun = 0, totalRuns = 0,
                   numFailures = None, timeNextReattempt = None\<rparr>,
      task_name = ''poll'',
      task_options = \<lparr>schedule = ''0 */5 * * * *'', timezone = None, immediate = None,
                      immediateWhenLate = None, immediateFirstRun = None,
                      timeout = None, numReattempts = Some 2\<rparr>,
      task_service = ''svc'', task_job_started = True\<rparr>"

text \<open>Its schedule oracle: the next multiple of five minutes after the given time.\<close>

definition example_cron :: "TaskOptions \<Rightarrow> int \<Rightarrow> int" where
  "example_cron opts now = (now div 300000 + 1) * 300000"

text \<open>
  The single-flight discipline: a task is in \<^verbatim>\<open>_running\<close> exactly when one of its
  invocations is suspended at the race, and then there is one only.
\<close>

definition tm_inv :: "TaskManager \<Rightarrow> bool" where
  "tm_inv s = (\<forall>t. length (awaiting t s) = (if t \<in> tm_running s then 1 else 0))"

section \<open>Properties of the timeout source\<close>

lemma ts_step_isFinished: "ts_isFinished (ts_step t e) = ts_isFinished t"
  by (cases e) (simp_all add: ts_expire_def ts_closure_settled_def cancel_def split: option.split)

lemma foldl_ts_step_isFinished: "ts_isFinished (foldl ts_step t evs) = ts_isFinished t"
  by (induction evs arbitrary: t) (simp_all add: ts_step_isFinished)

text \<open>
  Claim C10. No method assigns \<^verbatim>\<open>_isFinished\<close> of a \<^verbatim>\<open>PromiseTimeoutSource\<close>: after
  any sequence of expiry, closure completion and \<^verbatim>\<open>cancel()\<close> events the getter
  \<^verbatim>\<open>isFinished\<close> returns false and \<^verbatim>\<open>isPending\<close> returns true. The three named points
  of the lifetime are spelled out: freshly constructed, after the closure has run (the
  inner completion source is finished by then), and after \<^verbatim>\<open>cancel()\<close> (which does set
  \<^verbatim>\<open>isCancelled\<close>).
\<close>

theorem timeout_source_never_finished:
  "\<not> isFinished (ts_run ms evs) \<and> isPending (ts_run ms evs)
   \<and> \<not> isFinished (new_PromiseTimeoutSource ms) \<and> isPending (new_PromiseTimeoutSource ms)
   \<and> cs_isFinished (ts_source (ts_run ms [Expire, ClosureSettled r]))
   \<and> \<not> isFinished (ts_run ms [Expire, ClosureSettled r])
   \<and> isPending (ts_run ms [Expire, ClosureSettled r])
   \<and> isCancelled (ts_run ms [Cancel])
   \<and> \<not> isFinished (ts_run ms [Cancel]) \<and> isPending (ts_run ms [Cancel])"
proof -
  have fin: "ts_isFinished (ts_run ms es) = False" for es
    by (simp add: ts_run_def foldl_ts_step_isFinished new_PromiseTimeoutSource_def)
  have src: "cs_isFinished (ts_source (ts_run ms [Expire, ClosureSettled r]))"
    by (cases r)
       (simp_all add: ts_run_def ts_expire_def ts_closure_settled_def new_PromiseTimeoutSource_def
          new_PromiseCompletionSource_def setResult_def setError_def)
  have canc: "isCancelled (ts_run ms [Cancel])"
    by (simp add: ts_run_def cancel_def isCancelled_def new_PromiseTimeoutSource_def
          new_PromiseCompletionSource_def)
  have newf: "ts_isFinished (new_PromiseTimeoutSource ms) = False"
    by (simp add: new_PromiseTimeoutSource_def)
  show ?thesis
    using src canc by (simp add: isFinished_def isPending_def fin newf)
qed

section \<open>Properties of the store\<close>

lemma disk_all_updated:
  "(dk::disk)\<lparr>primary := a, journal := b\<rparr> = \<lparr>primary = a, journal = b\<rparr>"
  "(dk::disk)\<lparr>journal := b, primary := a\<rparr> = \<lparr>primary = a, journal = b\<rparr>"
  by (cases dk; simp)+

text \<open>Seven successful steps take a fresh write of \<open>d\<close> to its tail.\<close>

lemma drain_frame_some:
  "active s = [(Some d, write_steps (Some d))] \<Longrightarrow>
   drain stringify (7 + n) s =
   drain stringify n (finish_write stringify
     (s\<lparr>active := [], files := \<lparr>primary = Some d, journal = None\<rparr>,
        fs_trace := fs_trace s @ save_ops d\<rparr>))"
  apply (simp add: eval_nat_numeral)
  apply (simp add: io_step_def write_steps_def perform_def drop_nth_def save_ops_def disk_all_updated)
  done



lemma perform_fields [simp]:
  "active (perform op s) = active s"
  "writePromiseSource (perform op s) = writePromiseSource s"
  "pendingWritePromiseSource (perform op s) = pendingWritePromiseSource s"
  "cache (perform op s) = cache s"
  "files (perform op s) = apply_op op (files s)"
  by (simp_all add: perform_def)

lemma log_store_fields [simp]:
  "active (log_store l s) = active s"
  "writePromiseSource (log_store l s) = writePromiseSource s"
  "pendingWritePromiseSource (log_store l s) = pendingWritePromiseSource s"
  "cache (log_store l s) = cache s"
  "files (log_store l s) = files s"
  by (simp_all add: log_store_def)


lemma save_fields:
  "active (snd (save stringify s)) =
     (if writePromiseSource s = None
      then active s @ [(map_option stringify (cache s), write_steps (map_option stringify (cache s)))]
      else active s)"
  "writePromiseSource (snd (save stringify s)) =
     (if writePromiseSource s = None then Some (next_source s) else writePromiseSource s)"
  "pendingWritePromiseSource (snd (save stringify s)) =
     (if writePromiseSource s = None then pendingWritePromiseSource s
      else if pendingWritePromiseSource s = None then Some (next_source s)
      else pendingWritePromiseSource s)"
  "cache (snd (save stringify s)) = cache s"
  "files (snd (save stringify s)) = files s"
  by (auto simp: save_def start_write_def Let_def split: option.split)

















lemma parse_bool_values [simp]:
  "parse_bool ''true'' = Some True" "parse_bool ''false'' = Some False"
  "parse_bool ''tru'' = None" "parse_bool ''fals'' = None" "parse_bool [] = None"
  by (simp_all add: parse_bool_def json_space_def)


text \<open>
  Claim C3. The constructor runs \<^verbatim>\<open>_restoreFromJournal\<close> first, and after it no journal
  exists. With a journal that parses, the journal's text itself is written to the primary
  file and the value loaded is the journal's. With a journal that does not parse, the
  recovery leaves the primary file as it was, and the constructor loads the value of an
  existing primary file (the default when that does not parse either).
\<close>

theorem journal_recovery:
  assumes "journal dk = Some content"
  shows "(parse content = Some v \<longrightarrow>
            files (new_Store stringify parse dk dflt False pc) = \<lparr>primary = Some content, journal = None\<rparr>
          \<and> cache (new_Store stringify parse dk dflt False pc) = Some v
          \<and> fs_trace (new_Store stringify parse dk dflt False pc) = [WriteFile Primary content, Unlink Journal])
       \<and> (parse content = None \<longrightarrow>
            files (restoreFromJournal parse (fresh_Store dk dflt dflt)) = dk\<lparr>journal := None\<rparr>
          \<and> (primary dk = Some a \<longrightarrow>
                files (new_Store stringify parse dk dflt False pc) = \<lparr>primary = Some a, journal = None\<rparr>
              \<and> cache (new_Store stringify parse dk dflt False pc)
                  = (case parse a of Some x \<Rightarrow> Some x | None \<Rightarrow> dflt)
              \<and> fs_trace (new_Store stringify parse dk dflt False pc) = [Unlink Journal]))
       \<and> journal (files (restoreFromJournal parse (fresh_Store dk dflt dflt))) = None
       \<and> new_Store stringify parse dk dflt False pc
           = load_value parse (create_default stringify (restoreFromJournal parse (fresh_Store dk dflt dflt)))"
  using assms
  by (cases dk)
     (auto simp: new_Store_def fresh_Store_def restoreFromJournal_def create_default_def
        load_value_def perform_def log_store_def Let_def split: option.splits)

theorem journal_recovery_witness:
  "cache (new_Store stringify_bool parse_bool \<lparr>primary = Some ''true'', journal = Some ''false''\<rparr>
            (Some True) False None) = Some False
   \<and> files (new_Store stringify_bool parse_bool \<lparr>primary = Some ''true'', journal = Some ''false''\<rparr>
            (Some True) False None) = \<lparr>primary = Some ''false'', journal = None\<rparr>
   \<and> cache (new_Store stringify_bool parse_bool \<lparr>primary = Some ''true'', journal = Some ''fals''\<rparr>
            (Some False) False None) = Some True
   \<and> files (new_Store stringify_bool parse_bool \<lparr>primary = Some ''true'', journal = Some ''fals''\<rparr>
            (Some False) False None) = \<lparr>primary = Some ''true'', journal = None\<rparr>"
  using journal_recovery[of "\<lparr>primary = Some ''true'', journal = Some ''false''\<rparr>" "''false''"
          parse_bool False stringify_bool "Some True" None "''true''", THEN conjunct1]
        journal_recovery[of "\<lparr>primary = Some ''true'', journal = Some ''fals''\<rparr>" "''fals''"
          parse_bool False stringify_bool "Some False" None "''true''", THEN conjunct2, THEN conjunct1]
  by simp

text \<open>
  Claim C4, evaluated on the code. The two persistence paths do not follow one protocol.
  Constructing a store of booleans with the default \<^verbatim>\<open>true\<close> on an empty directory
  writes the whole serialization \<^verbatim>\<open>true\<close> to the journal, then to the primary file,
  and deletes the journal. A \<^verbatim>\<open>save\<close> of the same value on that store writes
  \<^verbatim>\<open>tru\<close> to the journal, the serialization minus its final character, before it
  writes \<^verbatim>\<open>true\<close> to the primary file and deletes the journal.
\<close>

theorem creation_and_save_journals_differ:
  "fs_trace (new_Store stringify_bool parse_bool \<lparr>primary = None, journal = None\<rparr> (Some True) False None)
     = [WriteFile Journal ''true'', WriteFile Primary ''true'', Unlink Journal]
   \<and> written_to Journal (fs_trace (new_Store stringify_bool parse_bool
         \<lparr>primary = None, journal = None\<rparr> (Some True) False None))
     = [''true'']
   \<and> butlast (stringify_bool True) = ''tru''
   \<and> fs_trace (drain stringify_bool 7 (snd (save stringify_bool
         (new_Store stringify_bool parse_bool \<lparr>primary = None, journal = None\<rparr> (Some True) False None))))
     = [WriteFile Journal ''true'', WriteFile Primary ''true'', Unlink Journal,
        Open Journal, Open Primary, HandleWrite Journal ''tru'', HandleClose Journal,
        HandleWrite Primary ''true'', HandleClose Primary, Unlink Journal]
   \<and> written_to Journal (fs_trace (drain stringify_bool 7 (snd (save stringify_bool
         (new_Store stringify_bool parse_bool \<lparr>primary = None, journal = None\<rparr> (Some True) False None)))))
     = [''true'', ''tru'']"
proof -
  let ?s = "new_Store stringify_bool parse_bool \<lparr>primary = None, journal = None\<rparr> (Some True) False None"
  have s: "?s = \<lparr>defaults = Some True, cache = Some True, writePromiseSource = None,
        pendingWritePromiseSource = None, resolved = {}, next_source = 0, active = [],
        files = \<lparr>primary = Some ''true'', journal = None\<rparr>,
        fs_trace = [WriteFile Journal ''true'', WriteFile Primary ''true'', Unlink Journal],
        logged = []\<rparr>"
    by (simp add: new_Store_def fresh_Store_def restoreFromJournal_def create_default_def
          load_value_def perform_all_def perform_def create_default_ops_def stringify_bool_def)
  have act: "active (snd (save stringify_bool ?s))
      = [(Some ''true'', write_steps (Some ''true''))]"
    unfolding s by (simp add: save_fields stringify_bool_def)
  have tr: "fs_trace (snd (save stringify_bool ?s))
      = [WriteFile Journal ''true'', WriteFile Primary ''true'', Unlink Journal]"
    unfolding s by (simp add: save_def start_write_def Let_def)
  have "fs_trace (drain stringify_bool 7 (snd (save stringify_bool ?s)))
      = [WriteFile Journal ''true'', WriteFile Primary ''true'', Unlink Journal] @ save_ops ''true''"
    using drain_frame_some[OF act, of stringify_bool 0] tr
    by (simp add: finish_write_def start_write_def Let_def split: option.split)
  then show ?thesis unfolding s by (simp add: save_ops_def stringify_bool_def)
qed

text \<open>
  Claim C2, evaluated on the code. The primary file holds the committed \<^verbatim>\<open>true\<close>;
  \<^verbatim>\<open>write(false)\<close> starts. After the two \<^verbatim>\<open>open\<close> calls both files are empty; two steps
  later the journal holds \<^verbatim>\<open>fals\<close> and the primary file is still empty. At both points
  the journal does not parse and the committed content is gone; a store constructed on
  the second state logs the corrupt journal and then the corrupt store.
\<close>

theorem save_crash_truncates_primary:
  "cache (new_Store stringify_bool parse_bool \<lparr>primary = Some ''true'', journal = None\<rparr>
            (Some False) False None) = Some True
   \<and> files (store_run stringify_bool
        (new_Store stringify_bool parse_bool \<lparr>primary = Some ''true'', journal = None\<rparr>
            (Some False) False None)
        [CallWrite False, IoDone 0 True, IoDone 0 True])
       = \<lparr>primary = Some [], journal = Some []\<rparr>
   \<and> parse_bool [] = None
   \<and> files (store_run stringify_bool
        (new_Store stringify_bool parse_bool \<lparr>primary = Some ''true'', journal = None\<rparr>
            (Some False) False None)
        [CallWrite False, IoDone 0 True, IoDone 0 True, IoDone 0 True, IoDone 0 True])
       = \<lparr>primary = Some [], journal = Some ''fals''\<rparr>
   \<and> parse_bool ''fals'' = None
   \<and> logged (new_Store stringify_bool parse_bool \<lparr>primary = Some [], journal = Some ''fals''\<rparr>
            (Some False) False None)
       = [LogRecovering, LogJournalCorrupt, LogCorruptStore]"
  by (simp add: new_Store_def fresh_Store_def restoreFromJournal_def create_default_def
        load_value_def perform_def log_store_def store_run_def store_write_def set_value_def
        save_def start_write_def write_steps_def io_step_def drop_nth_def stringify_bool_def Let_def)

section \<open>Properties of the event manager\<close>






text \<open>
  Claim C7, evaluated on the code. \<^verbatim>\<open>flush\<close> on an empty queue changes nothing. But
  \<^verbatim>\<open>flush\<close> never removes an event from \<^verbatim>\<open>_queue\<close>: with one handler registered and one
  event queued while the bot was starting, the first \<^verbatim>\<open>flush\<close> calls the handler once and
  leaves the event in the queue, and a second \<^verbatim>\<open>flush\<close> calls the handler again.
\<close>

theorem flush_twice_delivers_twice:
  "flush (\<lambda>h a. Fulfils) (new_EventManager Online) = new_EventManager Online
   \<and> em_calls (flush (\<lambda>h a. Fulfils)
        ((snd (invoke (\<lambda>h a. Fulfils) (JString ''ready'') [JNumber 1]
                 (register ''ready'' 7 (new_EventManager Starting))))\<lparr>em_status := Online\<rparr>))
       = [(7, [JNumber 1])]
   \<and> length (em_queue (flush (\<lambda>h a. Fulfils)
        ((snd (invoke (\<lambda>h a. Fulfils) (JString ''ready'') [JNumber 1]
                 (register ''ready'' 7 (new_EventManager Starting))))\<lparr>em_status := Online\<rparr>))) = 1
   \<and> em_calls (flush (\<lambda>h a. Fulfils) (flush (\<lambda>h a. Fulfils)
        ((snd (invoke (\<lambda>h a. Fulfils) (JString ''ready'') [JNumber 1]
                 (register ''ready'' 7 (new_EventManager Starting))))\<lparr>em_status := Online\<rparr>)))
       = [(7, [JNumber 1]), (7, [JNumber 1])]"
  by (simp add: flush_def flush_one_def invoke_def register_def new_EventManager_def handlers_of_def
        future_state_def setResult_def new_PromiseCompletionSource_def Let_def)




section \<open>Properties of the task manager\<close>

lemma log_task_fields [simp]:
  "tm_tasks (log_task l s) = tm_tasks s" "tm_running (log_task l s) = tm_running s"
  "tm_invocations (log_task l s) = tm_invocations s"
  "tm_reattemptTimeouts (log_task l s) = tm_reattemptTimeouts s"
  "tm_next_timeout (log_task l s) = tm_next_timeout s" "tm_now (log_task l s) = tm_now s"
  "tm_saves (log_task l s) = tm_saves s" "tm_logged (log_task l s) = tm_logged s @ [l]"
  by (simp_all add: log_task_def)

lemma store_save_fields [simp]:
  "tm_tasks (store_save s) = tm_tasks s" "tm_running (store_save s) = tm_running s"
  "tm_invocations (store_save s) = tm_invocations s"
  "tm_reattemptTimeouts (store_save s) = tm_reattemptTimeouts s"
  "tm_next_timeout (store_save s) = tm_next_timeout s" "tm_now (store_save s) = tm_now s"
  "tm_saves (store_save s) = Suc (tm_saves s)" "tm_logged (store_save s) = tm_logged s"
  by (simp_all add: store_save_def)

lemma update_data_fields [simp]:
  "tm_tasks (update_data t f s) = (tm_tasks s)(t := (tm_tasks s t)\<lparr>task_data := f (task_data (tm_tasks s t))\<rparr>)"
  "tm_running (update_data t f s) = tm_running s"
  "tm_invocations (update_data t f s) = tm_invocations s"
  "tm_reattemptTimeouts (update_data t f s) = tm_reattemptTimeouts s"
  "tm_next_timeout (update_data t f s) = tm_next_timeout s" "tm_now (update_data t f s) = tm_now s"
  "tm_saves (update_data t f s) = tm_saves s" "tm_logged (update_data t f s) = tm_logged s"
  by (simp_all add: update_data_def)

lemma set_job_fields [simp]:
  "tm_tasks (set_job t b s) = (tm_tasks s)(t := (tm_tasks s t)\<lparr>task_job_started := b\<rparr>)"
  "tm_running (set_job t b s) = tm_running s"
  "tm_invocations (set_job t b s) = tm_invocations s"
  "tm_reattemptTimeouts (set_job t b s) = tm_reattemptTimeouts s"
  "tm_next_timeout (set_job t b s) = tm_next_timeout s" "tm_now (set_job t b s) = tm_now s"
  "tm_saves (set_job t b s) = tm_saves s" "tm_logged (set_job t b s) = tm_logged s"
  by (simp_all add: set_job_def)

lemma after_invoke_fields [simp]:
  "tm_tasks (after_invoke origin s) = tm_tasks s" "tm_running (after_invoke origin s) = tm_running s"
  "tm_invocations (after_invoke origin s) = tm_invocations s"
  "tm_next_timeout (after_invoke origin s) = tm_next_timeout s" "tm_now (after_invoke origin s) = tm_now s"
  "tm_saves (after_invoke origin s) = tm_saves s" "tm_logged (after_invoke origin s) = tm_logged s"
  by (simp_all add: after_invoke_def split: option.split)

lemma finally_block_fields [simp]:
  "tm_tasks (finally_block t s) = tm_tasks s" "tm_running (finally_block t s) = tm_running s - {t}"
  "tm_invocations (finally_block t s) = tm_invocations s"
  "tm_reattemptTimeouts (finally_block t s) = tm_reattemptTimeouts s"
  "tm_next_timeout (finally_block t s) = tm_next_timeout s" "tm_now (finally_block t s) = tm_now s"
  "tm_saves (finally_block t s) = Suc (tm_saves s)" "tm_logged (finally_block t s) = tm_logged s"
  by (simp_all add: finally_block_def)

lemma log_error_fields [simp]:
  "tm_tasks (log_error n e s) = tm_tasks s" "tm_running (log_error n e s) = tm_running s"
  "tm_invocations (log_error n e s) = tm_invocations s"
  "tm_reattemptTimeouts (log_error n e s) = tm_reattemptTimeouts s"
  "tm_next_timeout (log_error n e s) = tm_next_timeout s" "tm_now (log_error n e s) = tm_now s"
  "tm_saves (log_error n e s) = tm_saves s"
  by (simp_all add: log_error_def split: task_error.split option.split)

lemma next_attempt_later: "now < getNextAttemptTime now d"
  by (simp add: getNextAttemptTime_def Let_def)

text \<open>
  Called from the catch block, \<^verbatim>\<open>_scheduleReattempt\<close> finds the reattempt time it was
  just given, which lies ahead: it arms a timer and does not call \<^verbatim>\<open>_invokeTask\<close>.
\<close>

lemma scheduleReattempt_ahead:
  "timeNextReattempt (task_data (tm_tasks s t)) = Some tn \<Longrightarrow> tm_now s < tn \<Longrightarrow>
   scheduleReattempt invokeNow t s =
     (log_task (Verbose_scheduling (task_name (tm_tasks s t)) (Some (tn - tm_now s))) s)
       \<lparr>tm_reattemptTimeouts := tm_reattemptTimeouts s @
           [\<lparr>rt_id = tm_next_timeout s, rt_task = t, rt_milliseconds = tn - tm_now s, rt_fired = False\<rparr>],
        tm_next_timeout := Suc (tm_next_timeout s)\<rparr>"
  by (simp add: scheduleReattempt_def Let_def max_def)

lemma succeed_control:
  "tm_running (succeed cron i s) = tm_running s - {inv_task (tm_invocations s ! i)}"
  "tm_invocations (succeed cron i s) = tm_invocations s"
  "tm_now (succeed cron i s) = tm_now s"
  by (simp_all add: succeed_def Let_def split: option.split)

lemma fail_control:
  "tm_running (fail cron invokeNow i err s) = tm_running s - {inv_task (tm_invocations s ! i)}"
  "tm_invocations (fail cron invokeNow i err s) = tm_invocations s"
  "tm_now (fail cron invokeNow i err s) = tm_now s"
  by (auto simp: fail_def Let_def scheduleReattempt_ahead next_attempt_later split: option.split)




lemma awaiting_by_control:
  "awaiting t s = filter (\<lambda>v. inv_task v = t \<and> inv_awaiting v) (tm_invocations s)"
  by (simp add: awaiting_def)




lemma tm_inv_frame:
  "tm_running s' = tm_running s \<Longrightarrow> tm_invocations s' = tm_invocations s \<Longrightarrow> tm_inv s' = tm_inv s"
  by (simp add: tm_inv_def awaiting_def)













lemma invokeTask_pending:
  assumes "t \<notin> tm_running s" "createTimeout (task_options (tm_tasks s t)) = Some tmo"
  shows "tm_tasks (invokeTask (Suc n) cron nested StillRunning origin t s) = tm_tasks s"
    "tm_running (invokeTask (Suc n) cron nested StillRunning origin t s) = insert t (tm_running s)"
    "tm_invocations (invokeTask (Suc n) cron nested StillRunning origin t s)
       = tm_invocations s @
         [\<lparr>inv_task = t,
           attemptNumber = (case numFailures (task_data (tm_tasks s t)) of Some n \<Rightarrow> n | None \<Rightarrow> 0),
           startTime = tm_now s, inv_timeout = Some tmo, inv_awaiting = True,
           inv_callback_running = True, inv_reattempt = origin\<rparr>]"
    "tm_reattemptTimeouts (invokeTask (Suc n) cron nested StillRunning origin t s) = tm_reattemptTimeouts s"
    "tm_next_timeout (invokeTask (Suc n) cron nested StillRunning origin t s) = tm_next_timeout s"
    "tm_now (invokeTask (Suc n) cron nested StillRunning origin t s) = tm_now s"
    "tm_saves (invokeTask (Suc n) cron nested StillRunning origin t s) = tm_saves s"
  using assms by (simp_all add: invokeTask_body_def Let_def)

lemma fail_tasks:
  "tm_tasks (fail cron f i err s) =
     (let inv = tm_invocations s ! i; t = inv_task inv; task = tm_tasks s t;
          nxt = attemptNumber inv + 1
      in if nxt \<le> (case numReattempts (task_options task) of Some m \<Rightarrow> m | None \<Rightarrow> 1)
         then (tm_tasks s)(t := task\<lparr>task_job_started := False,
                 task_data := (task_data task)\<lparr>numFailures := Some nxt,
                   timeNextReattempt := Some (tm_now s + retry_delay nxt)\<rparr>\<rparr>)
         else (tm_tasks s)(t := task\<lparr>task_job_started := True,
                 task_data := (task_data task)\<lparr>timeNextRun := cron (task_options task) (tm_now s),
                   numFailures := None, timeNextReattempt := None\<rparr>\<rparr>))"
  by (auto simp: fail_def Let_def scheduleReattempt_ahead next_attempt_later
        getNextAttemptTime_def retry_delay_def)

lemma fail_next_timeout:
  "tm_next_timeout (fail cron f i err s) =
     (let inv = tm_invocations s ! i; task = tm_tasks s (inv_task inv)
      in if attemptNumber inv + 1 \<le> (case numReattempts (task_options task) of Some m \<Rightarrow> m | None \<Rightarrow> 1)
         then Suc (tm_next_timeout s) else tm_next_timeout s)"
  by (auto simp: fail_def Let_def scheduleReattempt_ahead next_attempt_later)

text \<open>What one failing run does to the task, by the number of failures recorded before.\<close>

lemma failing_run_effect:
  fixes s :: TaskManager and t n w :: nat and cron nested origin err
  assumes "t \<notin> tm_running s" "createTimeout (task_options (tm_tasks s t)) = Some tmo"
  defines "a \<equiv> (case numFailures (task_data (tm_tasks s t)) of Some n \<Rightarrow> n | None \<Rightarrow> 0)"
  defines "s' \<equiv> failing_run (Suc n) cron nested origin t w err s"
  shows "tm_tasks s' =
     (if a + 1 \<le> (case numReattempts (task_options (tm_tasks s t)) of Some m \<Rightarrow> m | None \<Rightarrow> 1)
      then (tm_tasks s)(t := (tm_tasks s t)\<lparr>task_job_started := False,
              task_data := (task_data (tm_tasks s t))\<lparr>numFailures := Some (a + 1),
                timeNextReattempt := Some (tm_now s + int w + retry_delay (a + 1))\<rparr>\<rparr>)
      else (tm_tasks s)(t := (tm_tasks s t)\<lparr>task_job_started := True,
              task_data := (task_data (tm_tasks s t))\<lparr>
                timeNextRun := cron (task_options (tm_tasks s t)) (tm_now s + int w),
                numFailures := None, timeNextReattempt := None\<rparr>\<rparr>))"
    and "tm_next_timeout s' =
     (if a + 1 \<le> (case numReattempts (task_options (tm_tasks s t)) of Some m \<Rightarrow> m | None \<Rightarrow> 1)
      then Suc (tm_next_timeout s) else tm_next_timeout s)"
    and "tm_running s' = tm_running s" and "tm_now s' = tm_now s + int w"
proof -
  let ?p = "tick w (invokeTask (Suc n) cron nested StillRunning origin t s)"
  let ?i = "length (tm_invocations s)"
  note p = invokeTask_pending[OF assms(1,2), of n cron nested origin]
  have pi: "tm_invocations ?p ! ?i =
       \<lparr>inv_task = t, attemptNumber = a, startTime = tm_now s, inv_timeout = Some tmo,
        inv_awaiting = True, inv_callback_running = True, inv_reattempt = origin\<rparr>"
    "?i < length (tm_invocations ?p)" "tm_tasks ?p = tm_tasks s" "tm_now ?p = tm_now s + int w"
    "tm_running ?p = insert t (tm_running s)" "tm_next_timeout ?p = tm_next_timeout s"
    by (simp_all add: tick_def p a_def del: invokeTask.simps)
  let ?q = "?p\<lparr>tm_invocations := (tm_invocations ?p)
              [?i := (tm_invocations ?p ! ?i)\<lparr>inv_callback_running := False, inv_awaiting := False\<rparr>]\<rparr>"
  have s': "s' = fail cron (invokeTask (Suc n) cron nested (nested (Suc n)) None) ?i err ?q"
    unfolding s'_def failing_run_def callback_settles_def using pi(1,2)
    by (simp add: Let_def del: invokeTask.simps)
  have q: "tm_invocations ?q ! ?i =
       \<lparr>inv_task = t, attemptNumber = a, startTime = tm_now s, inv_timeout = Some tmo,
        inv_awaiting = False, inv_callback_running = False, inv_reattempt = origin\<rparr>"
    "tm_tasks ?q = tm_tasks s" "tm_now ?q = tm_now s + int w"
    "tm_running ?q = insert t (tm_running s)" "tm_next_timeout ?q = tm_next_timeout s"
    using pi by (simp_all del: invokeTask.simps)
  show "tm_tasks s' =
     (if a + 1 \<le> (case numReattempts (task_options (tm_tasks s t)) of Some m \<Rightarrow> m | None \<Rightarrow> 1)
      then (tm_tasks s)(t := (tm_tasks s t)\<lparr>task_job_started := False,
              task_data := (task_data (tm_tasks s t))\<lparr>numFailures := Some (a + 1),
                timeNextReattempt := Some (tm_now s + int w + retry_delay (a + 1))\<rparr>\<rparr>)
      else (tm_tasks s)(t := (tm_tasks s t)\<lparr>task_job_started := True,
              task_data := (task_data (tm_tasks s t))\<lparr>
                timeNextRun := cron (task_options (tm_tasks s t)) (tm_now s + int w),
                numFailures := None, timeNextReattempt := None\<rparr>\<rparr>))"
    unfolding s' fail_tasks Let_def q by simp
  show "tm_next_timeout s' =
     (if a + 1 \<le> (case numReattempts (task_options (tm_tasks s t)) of Some m \<Rightarrow> m | None \<Rightarrow> 1)
      then Suc (tm_next_timeout s) else tm_next_timeout s)"
    unfolding s' fail_next_timeout Let_def q by simp
  show "tm_running s' = tm_running s"
    unfolding s' fail_control q using assms(1) by simp
  show "tm_now s' = tm_now s + int w"
    unfolding s' fail_control q by simp
qed


lemma createTimeout_positive:
  "0 < (case timeout opts of Some m \<Rightarrow> m | None \<Rightarrow> 120000) \<Longrightarrow>
   createTimeout opts
     = Some \<lparr>triggered = False, milliseconds = (case timeout opts of Some m \<Rightarrow> m | None \<Rightarrow> 120000)\<rparr>"
  by (simp add: createTimeout_def Let_def)

text \<open>
  Claim C6, evaluated on the code. The task has \<^verbatim>\<open>numReattempts = 2\<close> and
  \<^verbatim>\<open>timeout = 0\<close>, the documented way to disable the timeout. Three times in a row the
  cron job fires, the callback returns a pending promise and 250 milliseconds later the
  promise is rejected. No failure is recorded: without a timeout the race is decided
  before the callback settles, every run counts as a success at once, no error is
  logged, no reattempt is armed and the cron job stays started. With the default timeout
  the first of these failures is recorded.
\<close>

theorem disabled_timeout_hides_failures:
  "numFailures (task_data (tm_tasks (tm_run 1 example_cron (\<lambda>n. StillRunning)
       (new_TaskManager (\<lambda>t. example_task\<lparr>task_options := (task_options example_task)\<lparr>timeout := Some 0\<rparr>\<rparr>) 0)
       [CronFires 0 StillRunning, Tick 250, CallbackSettles 0 (Some (OtherError ''down'')), Tick 299750,
        CronFires 0 StillRunning, Tick 250, CallbackSettles 1 (Some (OtherError ''down'')), Tick 299750,
        CronFires 0 StillRunning, Tick 250, CallbackSettles 2 (Some (OtherError ''down''))]) 0)) = None
   \<and> totalRuns (task_data (tm_tasks (tm_run 1 example_cron (\<lambda>n. StillRunning)
       (new_TaskManager (\<lambda>t. example_task\<lparr>task_options := (task_options example_task)\<lparr>timeout := Some 0\<rparr>\<rparr>) 0)
       [CronFires 0 StillRunning, Tick 250, CallbackSettles 0 (Some (OtherError ''down'')), Tick 299750,
        CronFires 0 StillRunning, Tick 250, CallbackSettles 1 (Some (OtherError ''down'')), Tick 299750,
        CronFires 0 StillRunning, Tick 250, CallbackSettles 2 (Some (OtherError ''down''))]) 0)) = 3
   \<and> tm_reattemptTimeouts (tm_run 1 example_cron (\<lambda>n. StillRunning)
       (new_TaskManager (\<lambda>t. example_task\<lparr>task_options := (task_options example_task)\<lparr>timeout := Some 0\<rparr>\<rparr>) 0)
       [CronFires 0 StillRunning, Tick 250, CallbackSettles 0 (Some (OtherError ''down'')), Tick 299750,
        CronFires 0 StillRunning, Tick 250, CallbackSettles 1 (Some (OtherError ''down'')), Tick 299750,
        CronFires 0 StillRunning, Tick 250, CallbackSettles 2 (Some (OtherError ''down''))]) = []
   \<and> tm_logged (tm_run 1 example_cron (\<lambda>n. StillRunning)
       (new_TaskManager (\<lambda>t. example_task\<lparr>task_options := (task_options example_task)\<lparr>timeout := Some 0\<rparr>\<rparr>) 0)
       [CronFires 0 StillRunning, Tick 250, CallbackSettles 0 (Some (OtherError ''down'')), Tick 299750,
        CronFires 0 StillRunning, Tick 250, CallbackSettles 1 (Some (OtherError ''down'')), Tick 299750,
        CronFires 0 StillRunning, Tick 250, CallbackSettles 2 (Some (OtherError ''down''))])
     = [Verbose2_starting ''svc'' ''poll'', Verbose2_finished ''svc'' ''poll'' 0,
        Verbose2_starting ''svc'' ''poll'', Verbose2_finished ''svc'' ''poll'' 0,
        Verbose2_starting ''svc'' ''poll'', Verbose2_finished ''svc'' ''poll'' 0]
   \<and> task_job_started (tm_tasks (tm_run 1 example_cron (\<lambda>n. StillRunning)
       (new_TaskManager (\<lambda>t. example_task\<lparr>task_options := (task_options example_task)\<lparr>timeout := Some 0\<rparr>\<rparr>) 0)
       [CronFires 0 StillRunning, Tick 250, CallbackSettles 0 (Some (OtherError ''down'')), Tick 299750,
        CronFires 0 StillRunning, Tick 250, CallbackSettles 1 (Some (OtherError ''down'')), Tick 299750,
        CronFires 0 StillRunning, Tick 250, CallbackSettles 2 (Some (OtherError ''down''))]) 0)
   \<and> numFailures (task_data (tm_tasks (tm_run 1 example_cron (\<lambda>n. StillRunning)
       (new_TaskManager (\<lambda>t. example_task) 0)
       [CronFires 0 StillRunning, Tick 250, CallbackSettles 0 (Some (OtherError ''down''))]) 0)) = Some 1"
  by (simp add: tm_run_def cron_fires_def callback_settles_def tick_def new_TaskManager_def
        example_task_def example_cron_def invokeTask_body_def createTimeout_def succeed_def fail_def
        scheduleReattempt_def getNextAttemptTime_def log_error_def set_job_def
        log_task_def update_data_def finally_block_def store_save_def after_invoke_def Let_def)

text \<open>
  The runs Claim C6 describes, for a task with a positive timeout. The delay of a retry
  is a step function of the failure count: 15000 up to 3, 30000 up to 7, 45000 up to 15,
  60000 beyond. A task with \<^verbatim>\<open>numReattempts = 2\<close>, a positive timeout and no failure
  recorded fails three times in a row (each time its callback rejects before the
  timeout). The first failure records one failure, the second two, each with the next
  attempt 15000 later, the cron job stopped and one reattempt timer armed. The third
  clears \<^verbatim>\<open>numFailures\<close> and \<^verbatim>\<open>timeNextReattempt\<close>, takes \<^verbatim>\<open>timeNextRun\<close> from the
  schedule, starts the cron job again and arms no timer.
\<close>

theorem retry_backoff:
  fixes s :: TaskManager and t n w1 w2 w3 d1 d2 :: nat and cron nested o1 o2 o3 e1 e2 e3
  defines "s1 \<equiv> failing_run (Suc n) cron nested o1 t w1 e1 s"
  defines "s2 \<equiv> failing_run (Suc n) cron nested o2 t w2 e2 (tick d1 s1)"
  defines "s3 \<equiv> failing_run (Suc n) cron nested o3 t w3 e3 (tick d2 s2)"
  assumes opts: "numReattempts (task_options (tm_tasks s t)) = Some 2"
    and tmo: "0 < (case timeout (task_options (tm_tasks s t)) of Some m \<Rightarrow> m | None \<Rightarrow> 120000)"
    and fresh: "numFailures (task_data (tm_tasks s t)) = None"
    and free: "t \<notin> tm_running s"
  shows "getNextAttemptTime now d - now
           = (let failures = (case numFailures d of Some k \<Rightarrow> k | None \<Rightarrow> 0)
              in if failures \<le> 3 then 15000 else if failures \<le> 7 then 30000
                 else if failures \<le> 15 then 45000 else 60000)
       \<and> numFailures (task_data (tm_tasks s1 t)) = Some 1
       \<and> timeNextReattempt (task_data (tm_tasks s1 t)) = Some (tm_now s1 + 15000)
       \<and> \<not> task_job_started (tm_tasks s1 t)
       \<and> tm_next_timeout s1 = Suc (tm_next_timeout s)
       \<and> numFailures (task_data (tm_tasks s2 t)) = Some 2
       \<and> timeNextReattempt (task_data (tm_tasks s2 t)) = Some (tm_now s2 + 15000)
       \<and> \<not> task_job_started (tm_tasks s2 t)
       \<and> tm_next_timeout s2 = Suc (tm_next_timeout s1)
       \<and> numFailures (task_data (tm_tasks s3 t)) = None
       \<and> timeNextReattempt (task_data (tm_tasks s3 t)) = None
       \<and> timeNextRun (task_data (tm_tasks s3 t)) = cron (task_options (tm_tasks s t)) (tm_now s3)
       \<and> task_job_started (tm_tasks s3 t)
       \<and> tm_next_timeout s3 = tm_next_timeout s2
       \<and> t \<notin> tm_running s3"
proof -
  let ?ms = "(case timeout (task_options (tm_tasks s t)) of Some m \<Rightarrow> m | None \<Rightarrow> 120000)"
  let ?tmo = "\<lparr>triggered = False, milliseconds = ?ms\<rparr>"
  have c0: "createTimeout (task_options (tm_tasks s t)) = Some ?tmo"
    using tmo by (rule createTimeout_positive)
  note r1 = failing_run_effect[OF free c0, of n cron nested o1 w1 e1, folded s1_def]
  have t1: "tm_tasks s1 t = (tm_tasks s t)\<lparr>task_job_started := False,
              task_data := (task_data (tm_tasks s t))\<lparr>numFailures := Some 1,
                timeNextReattempt := Some (tm_now s + int w1 + 15000)\<rparr>\<rparr>"
    using r1(1) opts fresh by (simp add: retry_delay_def)
  have n1: "tm_next_timeout s1 = Suc (tm_next_timeout s)" using r1(2) opts fresh by simp
  let ?u1 = "tick d1 s1"
  have u1: "t \<notin> tm_running ?u1" "createTimeout (task_options (tm_tasks ?u1 t)) = Some ?tmo"
    "tm_tasks ?u1 = tm_tasks s1" "tm_now ?u1 = tm_now s1 + int d1"
    "tm_next_timeout ?u1 = tm_next_timeout s1"
    using r1(3) free c0 t1 by (simp_all add: tick_def)
  note r2 = failing_run_effect[OF u1(1,2), of n cron nested o2 w2 e2, folded s2_def]
  have t2: "tm_tasks s2 t = (tm_tasks s t)\<lparr>task_job_started := False,
              task_data := (task_data (tm_tasks s t))\<lparr>numFailures := Some 2,
                timeNextReattempt := Some (tm_now s1 + int d1 + int w2 + 15000)\<rparr>\<rparr>"
    using r2(1) opts t1 u1(3,4) by (simp add: retry_delay_def)
  have n2: "tm_next_timeout s2 = Suc (tm_next_timeout s1)"
    using r2(2) opts t1 u1(3,5) by simp
  let ?u2 = "tick d2 s2"
  have u2: "t \<notin> tm_running ?u2" "createTimeout (task_options (tm_tasks ?u2 t)) = Some ?tmo"
    "tm_tasks ?u2 = tm_tasks s2" "tm_now ?u2 = tm_now s2 + int d2"
    "tm_next_timeout ?u2 = tm_next_timeout s2"
    using r2(3) u1(1) c0 t2 by (simp_all add: tick_def)
  note r3 = failing_run_effect[OF u2(1,2), of n cron nested o3 w3 e3, folded s3_def]
  have t3: "tm_tasks s3 t = (tm_tasks s t)\<lparr>task_job_started := True,
              task_data := (task_data (tm_tasks s t))\<lparr>numFailures := None,
                timeNextReattempt := None,
                timeNextRun := cron (task_options (tm_tasks s t)) (tm_now s2 + int d2 + int w3)\<rparr>\<rparr>"
    using r3(1) opts t2 u2(3,4) by simp
  have n3: "tm_next_timeout s3 = tm_next_timeout s2"
    using r3(2) opts t2 u2(3,5) by simp
  have now1: "tm_now s1 = tm_now s + int w1" using r1(4) .
  have now2: "tm_now s2 = tm_now s1 + int d1 + int w2" using r2(4) u1(4) by simp
  have now3: "tm_now s3 = tm_now s2 + int d2 + int w3" using r3(4) u2(4) by simp
  have free3: "t \<notin> tm_running s3" using r3(3) u2(1) by simp
  have step: "getNextAttemptTime now d - now
           = (let failures = (case numFailures d of Some k \<Rightarrow> k | None \<Rightarrow> 0)
              in if failures \<le> 3 then 15000 else if failures \<le> 7 then 30000
                 else if failures \<le> 15 then 45000 else 60000)"
    by (simp add: getNextAttemptTime_def Let_def)
  show ?thesis
    using step t1 n1 t2 n2 t3 n3 free3 now1 now2 now3 by simp
qed

lemma succeed_tasks:
  "tm_tasks (succeed cron i s) =
     (let inv = tm_invocations s ! i; t = inv_task inv; task = tm_tasks s t;
          d = (task_data task)\<lparr>timeLastRun := startTime inv,
                 timeNextRun := cron (task_options task) (tm_now s),
                 totalRuns := totalRuns (task_data task) + 1\<rparr>
      in if attemptNumber inv > 0
         then (tm_tasks s)(t := task\<lparr>task_data := d\<lparr>numFailures := None, timeNextReattempt := None\<rparr>,
                 task_job_started := True\<rparr>)
         else (tm_tasks s)(t := task\<lparr>task_data := d\<rparr>))"
  by (simp add: succeed_def Let_def split: option.split)


lemma succeed_other_fields:
  "tm_next_timeout (succeed cron i s) = tm_next_timeout s"
  "tm_saves (succeed cron i s) = Suc (tm_saves s)"
  by (simp_all add: succeed_def Let_def split: option.split)

text \<open>
  Claim C9. A task with a positive timeout is invoked and the timeout fires before the
  callback settles. At that moment the run is recorded as a success: \<^verbatim>\<open>timeLastRun\<close>
  is the start time, \<^verbatim>\<open>timeNextRun\<close> comes from the schedule, \<^verbatim>\<open>totalRuns\<close> grows by
  one, the store is saved and the slot is released, while the callback still runs. When
  the callback is rejected later, nothing but that execution ends: the tasks, the
  reattempt timers, the log, the running set and the saves stay as they were.
\<close>

theorem timeout_counts_as_success:
  fixes s :: TaskManager and t n w d fuel :: nat and cron nested origin err
  defines "i \<equiv> length (tm_invocations s)"
  defines "s2 \<equiv> timed_out_run (Suc n) cron nested origin t w s"
  defines "s3 \<equiv> callback_settles fuel cron nested i (Some err) (tick d s2)"
  assumes tmo: "0 < (case timeout (task_options (tm_tasks s t)) of Some m \<Rightarrow> m | None \<Rightarrow> 120000)"
    and free: "t \<notin> tm_running s"
  shows "timeLastRun (task_data (tm_tasks s2 t)) = tm_now s
       \<and> timeNextRun (task_data (tm_tasks s2 t)) = cron (task_options (tm_tasks s t)) (tm_now s + int w)
       \<and> totalRuns (task_data (tm_tasks s2 t)) = totalRuns (task_data (tm_tasks s t)) + 1
       \<and> t \<notin> tm_running s2
       \<and> tm_saves s2 = Suc (tm_saves s)
       \<and> tm_next_timeout s2 = tm_next_timeout s
       \<and> length (executing t s2) = Suc (length (executing t s))
       \<and> length (awaiting t s2) = length (awaiting t s)
       \<and> tm_tasks s3 = tm_tasks s2
       \<and> tm_reattemptTimeouts s3 = tm_reattemptTimeouts s2
       \<and> tm_next_timeout s3 = tm_next_timeout s2
       \<and> tm_logged s3 = tm_logged s2
       \<and> tm_running s3 = tm_running s2
       \<and> tm_saves s3 = tm_saves s2
       \<and> length (executing t s3) = length (executing t s)"
proof -
  let ?ms = "(case timeout (task_options (tm_tasks s t)) of Some m \<Rightarrow> m | None \<Rightarrow> 120000)"
  let ?tmo = "\<lparr>triggered = False, milliseconds = ?ms\<rparr>"
  let ?a = "(case numFailures (task_data (tm_tasks s t)) of Some n \<Rightarrow> n | None \<Rightarrow> 0)"
  have c0: "createTimeout (task_options (tm_tasks s t)) = Some ?tmo"
    using tmo by (rule createTimeout_positive)
  let ?p = "tick w (invokeTask (Suc n) cron nested StillRunning origin t s)"
  note p = invokeTask_pending[OF free c0, of n cron nested origin]
  let ?inv = "\<lparr>inv_task = t, attemptNumber = ?a, startTime = tm_now s, inv_timeout = Some ?tmo,
        inv_awaiting = True, inv_callback_running = True, inv_reattempt = origin\<rparr>"
  have pi: "tm_invocations ?p = tm_invocations s @ [?inv]"
    "tm_tasks ?p = tm_tasks s" "tm_now ?p = tm_now s + int w"
    "tm_running ?p = insert t (tm_running s)" "tm_next_timeout ?p = tm_next_timeout s"
    "tm_saves ?p = tm_saves s"
    by (simp_all add: tick_def p del: invokeTask.simps)
  let ?v = "?inv\<lparr>inv_timeout := Some (?tmo\<lparr>triggered := True\<rparr>), inv_awaiting := False\<rparr>"
  let ?q = "?p\<lparr>tm_invocations := (tm_invocations ?p)[i := ?v]\<rparr>"
  have s2: "s2 = succeed cron i ?q"
    unfolding s2_def timed_out_run_def timeout_fires_def i_def[symmetric]
    using pi(1) by (simp add: Let_def i_def del: invokeTask.simps)
  have q: "tm_invocations ?q = tm_invocations s @ [?v]" "tm_invocations ?q ! i = ?v"
    "tm_tasks ?q = tm_tasks s" "tm_now ?q = tm_now s + int w"
    "tm_running ?q = insert t (tm_running s)" "tm_next_timeout ?q = tm_next_timeout s"
    "tm_saves ?q = tm_saves s"
    using pi by (simp_all add: i_def del: invokeTask.simps)
  have inv2: "tm_invocations s2 = tm_invocations s @ [?v]"
    by (simp add: s2 succeed_control pi i_def del: invokeTask.simps)
  have tasks2: "tm_tasks s2 t = (if ?a > 0
      then (tm_tasks s t)\<lparr>task_data := (task_data (tm_tasks s t))\<lparr>timeLastRun := tm_now s,
                 timeNextRun := cron (task_options (tm_tasks s t)) (tm_now s + int w),
                 totalRuns := totalRuns (task_data (tm_tasks s t)) + 1,
                 numFailures := None, timeNextReattempt := None\<rparr>, task_job_started := True\<rparr>
      else (tm_tasks s t)\<lparr>task_data := (task_data (tm_tasks s t))\<lparr>timeLastRun := tm_now s,
                 timeNextRun := cron (task_options (tm_tasks s t)) (tm_now s + int w),
                 totalRuns := totalRuns (task_data (tm_tasks s t)) + 1\<rparr>\<rparr>)"
    by (simp add: s2 succeed_tasks Let_def pi i_def del: invokeTask.simps)
  have run2: "tm_running s2 = tm_running s"
    using free by (simp add: s2 succeed_control pi i_def del: invokeTask.simps)
  have other2: "tm_saves s2 = Suc (tm_saves s)" "tm_next_timeout s2 = tm_next_timeout s"
    by (simp_all add: s2 succeed_other_fields pi del: invokeTask.simps)
  have ex2: "length (executing t s2) = Suc (length (executing t s))"
    "length (awaiting t s2) = length (awaiting t s)"
    by (simp_all add: executing_def awaiting_def inv2)
  let ?u = "tick d s2"
  have u: "tm_invocations ?u = tm_invocations s @ [?v]" "i < length (tm_invocations ?u)"
    "tm_invocations ?u ! i = ?v"
    by (simp_all add: tick_def inv2 i_def)
  have s3: "s3 = ?u\<lparr>tm_invocations := tm_invocations s @
                     [?v\<lparr>inv_callback_running := False, inv_awaiting := False\<rparr>]\<rparr>"
    unfolding s3_def callback_settles_def using u by (simp add: Let_def i_def)
  have ex3: "length (executing t s3) = length (executing t s)"
    unfolding s3 by (simp add: executing_def)
  have f3: "tm_tasks s3 = tm_tasks s2" "tm_reattemptTimeouts s3 = tm_reattemptTimeouts s2"
    "tm_next_timeout s3 = tm_next_timeout s2" "tm_logged s3 = tm_logged s2"
    "tm_running s3 = tm_running s2" "tm_saves s3 = tm_saves s2"
    unfolding s3 by (simp_all add: tick_def)
  show ?thesis
    using tasks2 run2 other2 ex2 ex3 f3 free by simp
qed



theorem retry_backoff_witness:
  "numFailures (task_data (tm_tasks
      (failing_run (Suc 0) example_cron (\<lambda>n. StillRunning) None 0 250 (OtherError ''down'')
         (new_TaskManager (\<lambda>t. example_task) 1000)) 0)) = Some 1
   \<and> timeNextReattempt (task_data (tm_tasks
      (failing_run (Suc 0) example_cron (\<lambda>n. StillRunning) None 0 250 (OtherError ''down'')
         (new_TaskManager (\<lambda>t. example_task) 1000)) 0)) = Some 16250
   \<and> numFailures (task_data (tm_tasks
      (failing_run (Suc 0) example_cron (\<lambda>n. StillRunning) (Some 1) 0 250 (OtherError ''down'')
        (tick 15000
          (failing_run (Suc 0) example_cron (\<lambda>n. StillRunning) (Some 0) 0 250 (OtherError ''down'')
            (tick 15000
              (failing_run (Suc 0) example_cron (\<lambda>n. StillRunning) None 0 250 (OtherError ''down'')
                 (new_TaskManager (\<lambda>t. example_task) 1000)))))) 0)) = None
   \<and> task_job_started (tm_tasks
      (failing_run (Suc 0) example_cron (\<lambda>n. StillRunning) (Some 1) 0 250 (OtherError ''down'')
        (tick 15000
          (failing_run (Suc 0) example_cron (\<lambda>n. StillRunning) (Some 0) 0 250 (OtherError ''down'')
            (tick 15000
              (failing_run (Suc 0) example_cron (\<lambda>n. StillRunning) None 0 250 (OtherError ''down'')
                 (new_TaskManager (\<lambda>t. example_task) 1000)))))) 0)"
proof -
  let ?s0 = "new_TaskManager (\<lambda>t. example_task) 1000"
  have h: "numReattempts (task_options (tm_tasks ?s0 0)) = Some 2"
    "0 < (case timeout (task_options (tm_tasks ?s0 0)) of Some m \<Rightarrow> m | None \<Rightarrow> 120000)"
    "numFailures (task_data (tm_tasks ?s0 0)) = None" "0 \<notin> tm_running ?s0"
    by (simp_all add: new_TaskManager_def example_task_def)
  have n: "tm_now (failing_run (Suc 0) example_cron (\<lambda>n. StillRunning) None 0 250 (OtherError ''down'') ?s0)
      = 1250"
    by (simp add: failing_run_def callback_settles_def fail_control tick_def
          invokeTask_body_def Let_def new_TaskManager_def example_task_def createTimeout_def
          log_task_def)
  from retry_backoff[OF h, where n = 0 and cron = example_cron and nested = "\<lambda>n. StillRunning"
         and ?o1.0 = None and ?w1.0 = 250 and ?e1.0 = "OtherError ''down''"
         and ?o2.0 = "Some 0" and ?w2.0 = 250 and ?e2.0 = "OtherError ''down''" and ?d1.0 = 15000
         and ?o3.0 = "Some 1" and ?w3.0 = 250 and ?e3.0 = "OtherError ''down''" and ?d2.0 = 15000]
       n
  show ?thesis by simp
qed

theorem timeout_counts_as_success_witness:
  "timeLastRun (task_data (tm_tasks
      (timed_out_run (Suc 0) example_cron (\<lambda>n. StillRunning) None 0 120000
         (new_TaskManager (\<lambda>t. example_task) 1000)) 0)) = 1000
   \<and> timeNextRun (task_data (tm_tasks
      (timed_out_run (Suc 0) example_cron (\<lambda>n. StillRunning) None 0 120000
         (new_TaskManager (\<lambda>t. example_task) 1000)) 0)) = 300000
   \<and> totalRuns (task_data (tm_tasks
      (timed_out_run (Suc 0) example_cron (\<lambda>n. StillRunning) None 0 120000
         (new_TaskManager (\<lambda>t. example_task) 1000)) 0)) = 1
   \<and> 0 \<notin> tm_running (timed_out_run (Suc 0) example_cron (\<lambda>n. StillRunning) None 0 120000
         (new_TaskManager (\<lambda>t. example_task) 1000))
   \<and> tm_tasks (callback_settles 1 example_cron (\<lambda>n. StillRunning) 0 (Some (OtherError ''late''))
        (tick 5000 (timed_out_run (Suc 0) example_cron (\<lambda>n. StillRunning) None 0 120000
         (new_TaskManager (\<lambda>t. example_task) 1000))))
     = tm_tasks (timed_out_run (Suc 0) example_cron (\<lambda>n. StillRunning) None 0 120000
         (new_TaskManager (\<lambda>t. example_task) 1000))"
proof -
  let ?s0 = "new_TaskManager (\<lambda>t. example_task) 1000"
  have h: "0 < (case timeout (task_options (tm_tasks ?s0 0)) of Some m \<Rightarrow> m | None \<Rightarrow> 120000)"
    "0 \<notin> tm_running ?s0"
    by (simp_all add: new_TaskManager_def example_task_def)
  have e: "tm_now ?s0 = 1000" "length (tm_invocations ?s0) = 0"
    "task_options (tm_tasks ?s0 0) = task_options example_task"
    "totalRuns (task_data (tm_tasks ?s0 0)) = 0"
    by (simp_all add: new_TaskManager_def example_task_def)
  from timeout_counts_as_success[OF h, where n = 0 and cron = example_cron
         and nested = "\<lambda>n. StillRunning" and origin = None and w = 120000 and fuel = 1
         and err = "OtherError ''late''" and d = 5000]
  show ?thesis unfolding e by (simp add: example_cron_def)
qed

end
